theory Spec2Isabelle
  imports Complex_Main
begin

section \<open>Values, errors and text helpers\<close>

text \<open>
  A Python float is modelled as the real number it denotes: durations, offsets and
  similarity scores are \<^typ>\<open>real\<close>, Python's unbounded integers are \<^typ>\<open>int\<close>. Float
  arithmetic is exact arithmetic on these reals, except in the identity of a segment, where
  the product \<open>end * 1000\<close> is rounded as binary64 arithmetic rounds it.

  Values decoded from JSON (\<open>json.loads\<close>, rows returned by the store) are \<open>json\<close>;
  a Python \<open>dict\<close> is an association list, looked up with \<^const>\<open>map_of\<close>, and Python's
  \<open>None\<close> is \<open>JNull\<close>.
\<close>

datatype json =
    JNull
  | JBool bool
  | JNum real
  | JStr string
  | JArr "json list"
  | JObj "(string \<times> json) list"

text \<open>
  The exceptions of the model. \<open>OSError\<close> stands for what the decoding library and the file
  system raise, \<open>ServiceError\<close> for what the remote clients raise; \<open>AttributeError\<close>,
  \<open>KeyError\<close> and \<open>TypeError\<close> are raised by the Python code itself. \<open>PartialUpsertError\<close>
  does not occur in the source: only the store modelled from the specification raises it.
\<close>

datatype error =
    OSError string
  | ServiceError string
  | AttributeError
  | KeyError string
  | TypeError
  | PartialUpsertError "string list"

definition newline :: char where
  "newline = CHR 0x0A"

text \<open>\<open>str(n)\<close> for a non-negative integer, and for any integer.\<close>

fun str_nat :: "nat \<Rightarrow> string" where
  "str_nat n =
     (if n < 10 then [''0123456789'' ! n]
      else str_nat (n div 10) @ [''0123456789'' ! (n mod 10)])"

declare str_nat.simps [simp del]

definition str_int :: "int \<Rightarrow> string" where
  "str_int i = (if i < 0 then CHR ''-'' # str_nat (nat (- i)) else str_nat (nat i))"

text \<open>The format specification \<open>{index:04d}\<close> for an index produced by \<open>range\<close>.\<close>

definition format_04d :: "nat \<Rightarrow> string" where
  "format_04d n = replicate (4 - length (str_nat n)) CHR ''0'' @ str_nat n"

text \<open>\<open>int(x)\<close> on a float truncates toward zero.\<close>

definition py_int :: "real \<Rightarrow> int" where
  "py_int x = (if 0 \<le> x then \<lfloor>x\<rfloor> else \<lceil>x\<rceil>)"

text \<open>
  IEEE binary64 arithmetic, where the source computes on floats and the result depends on
  the rounding. A float is the real number it denotes; \<open>double_round\<close> rounds a real to the
  nearest float, ties to even, and the product of two floats is the rounded exact product.
  Overflow and subnormal numbers are outside this model.
\<close>

text \<open>\<open>n.bit_length()\<close> for a non-negative integer.\<close>

fun bit_length :: "nat \<Rightarrow> nat" where
  "bit_length n = (if n = 0 then 0 else Suc (bit_length (n div 2)))"

declare bit_length.simps [simp del]

text \<open>The exponent of a positive real: the floor of its binary logarithm.\<close>

definition ilog2 :: "real \<Rightarrow> int" where
  "ilog2 x =
     (if 1 \<le> x then int (bit_length (nat \<lfloor>x\<rfloor>)) - 1
      else - int (bit_length (nat (\<lceil>1 / x\<rceil> - 1))))"

definition pow2 :: "int \<Rightarrow> real" where
  "pow2 e = (if 0 \<le> e then 2 ^ nat e else 1 / 2 ^ nat (- e))"

definition round_half_even :: "real \<Rightarrow> int" where
  "round_half_even x =
     (let f = \<lfloor>x\<rfloor>; r = x - of_int f
      in if r < 1 / 2 then f
         else if 1 / 2 < r then f + 1
         else if even f then f else f + 1)"

text \<open>The significand of a binary64 float has 53 bits.\<close>

definition double_round :: "real \<Rightarrow> real" where
  "double_round x =
     (if x = 0 then 0
      else (let e = ilog2 \<bar>x\<bar> - 52
            in sgn x * of_int (round_half_even (\<bar>x\<bar> / pow2 e)) * pow2 e))"

definition double_mul :: "real \<Rightarrow> real \<Rightarrow> real" where
  "double_mul x y = double_round (x * y)"

text \<open>\<open>sep.join(parts)\<close>.\<close>

fun join :: "string \<Rightarrow> string list \<Rightarrow> string" where
  "join sep [] = []"
| "join sep [x] = x"
| "join sep (x # y # ys) = x @ sep @ join sep (y # ys)"


section \<open>The world: temporary directories, files and the remote store\<close>

text \<open>
  A temporary directory is named by the number \<open>mkdtemp\<close> gave it; a file is a pair of its
  directory and its name. The remote store's contents have type \<^typ>\<open>'db\<close>.
\<close>

type_synonym path = "nat \<times> string"

record 'db world =
  tmp_counter :: nat
  dirs :: "nat list"
  files :: "path list"
  store :: 'db

definition mkdtemp :: "'db world \<Rightarrow> nat \<times> 'db world" where
  "mkdtemp w =
     (tmp_counter w,
      w\<lparr>tmp_counter := Suc (tmp_counter w), dirs := tmp_counter w # dirs w\<rparr>)"

definition path_exists :: "'db world \<Rightarrow> path \<Rightarrow> bool" where
  "path_exists w p = (p \<in> set (files w))"

definition write_file :: "path \<Rightarrow> 'db world \<Rightarrow> 'db world" where
  "write_file p w = w\<lparr>files := p # files w\<rparr>"

text \<open>\<open>shutil.rmtree(temp_dir, ignore_errors=True)\<close>: never raises.\<close>

definition rmtree :: "nat \<Rightarrow> 'db world \<Rightarrow> 'db world" where
  "rmtree d w =
     w\<lparr>dirs := filter (\<lambda>x. x \<noteq> d) (dirs w),
       files := filter (\<lambda>p. fst p \<noteq> d) (files w)\<rparr>"


section \<open>Segmentation (\<open>_videoutil/split.py\<close>)\<close>

record VideoSegment =
  seg_id :: string
  seg_start :: real
  seg_end :: real
  frames_base64 :: "string list"
  audio_path :: "path option"

record VideoSegmenter =
  segment_duration :: int
  frames_per_segment :: int

text \<open>The constructor clamps both parameters.\<close>

definition new_VideoSegmenter :: "int \<Rightarrow> int \<Rightarrow> VideoSegmenter" where
  "new_VideoSegmenter sd fps =
     \<lparr>segment_duration = max 1 sd, frames_per_segment = max 0 fps\<rparr>"

text \<open>
  What the decoding library gives for an opened clip: its duration (which may be \<open>None\<close>),
  the frame at a time, and whether it carries an audio track. A sub-clip from \<open>start\<close> to
  \<open>end\<close> has duration \<open>end - start\<close>, its frame at \<open>t\<close> is the clip's frame at
  \<open>start + t\<close>, and it has audio exactly when the clip has.
\<close>

record 'f clip =
  clip_duration :: "real option"
  clip_get_frame :: "real \<Rightarrow> 'f"
  clip_has_audio :: bool

text \<open>\<open>np.linspace(a, b, num, endpoint=False)\<close>: \<open>num\<close> samples with step \<open>(b - a) / num\<close>.\<close>

definition linspace :: "real \<Rightarrow> real \<Rightarrow> int \<Rightarrow> real list" where
  "linspace a b num = map (\<lambda>i. a + real i * ((b - a) / of_int num)) [0..<nat num]"

definition frame_offsets :: "VideoSegmenter \<Rightarrow> real \<Rightarrow> real list" where
  "frame_offsets sg duration =
     (if frames_per_segment sg \<le> 0 \<or> duration \<le> 0 then []
      else linspace 0 (max (duration - 1 / 1000) 0) (frames_per_segment sg))"

text \<open>
  The value \<open>end = min((index + 1) * segment_duration, duration)\<close> is a Python integer or
  a float: \<open>min\<close> returns its first argument, the integer boundary, unless the duration is
  smaller. \<open>float(end)\<close> is the number itself (an integer below \<open>2 ^ 53\<close> is a float), and
  \<open>int(end * 1000)\<close> multiplies an integer exactly and a float in binary64 arithmetic,
  then truncates.
\<close>

datatype pynum = PyInt int | PyFloat real

definition py_min :: "int \<Rightarrow> real \<Rightarrow> pynum" where
  "py_min a d = (if d < of_int a then PyFloat d else PyInt a)"

fun float_of :: "pynum \<Rightarrow> real" where
  "float_of (PyInt a) = of_int a"
| "float_of (PyFloat d) = d"

fun py_millis :: "pynum \<Rightarrow> int" where
  "py_millis (PyInt a) = a * 1000"
| "py_millis (PyFloat d) = py_int (double_mul d 1000)"

text \<open>
  \<open>f"seg-{index:04d}-{int(start * 1000)}-{int(end * 1000)}"\<close>; \<open>start\<close> is a Python integer
  (\<open>index * segment_duration\<close>), \<open>end\<close> an integer or a float.
\<close>

definition segment_id :: "nat \<Rightarrow> int \<Rightarrow> pynum \<Rightarrow> string" where
  "segment_id index start end_v =
     ''seg-'' @ format_04d index @ ''-'' @ str_int (start * 1000)
       @ ''-'' @ str_int (py_millis end_v)"

text \<open>
  One iteration of the loop of \<open>segment\<close>. The JPEG encoding \<open>_frame_to_base64\<close> is the
  parameter \<open>enc\<close>.
\<close>

definition make_segment ::
  "('f \<Rightarrow> string) \<Rightarrow> VideoSegmenter \<Rightarrow> 'f clip \<Rightarrow> real \<Rightarrow> nat \<Rightarrow> nat
     \<Rightarrow> 'db world \<Rightarrow> VideoSegment \<times> 'db world" where
  "make_segment enc sg c duration temp_dir index w =
     (let start = int index * segment_duration sg;
          end_v = py_min ((int index + 1) * segment_duration sg) duration;
          end_t = float_of end_v;
          sid = segment_id index start end_v;
          offs = frame_offsets sg (end_t - of_int start);
          frames = map (\<lambda>t. enc (clip_get_frame c (of_int start + t))) offs;
          apath = (if clip_has_audio c then Some (temp_dir, sid @ ''.mp3'') else None);
          w' = (case apath of None \<Rightarrow> w | Some p \<Rightarrow> write_file p w)
      in (\<lparr>seg_id = sid, seg_start = of_int start, seg_end = end_t,
            frames_base64 = frames, audio_path = apath\<rparr>, w'))"

fun segment_loop ::
  "('f \<Rightarrow> string) \<Rightarrow> VideoSegmenter \<Rightarrow> 'f clip \<Rightarrow> real \<Rightarrow> nat \<Rightarrow> nat list
     \<Rightarrow> 'db world \<Rightarrow> VideoSegment list \<times> 'db world" where
  "segment_loop enc sg c duration temp_dir [] w = ([], w)"
| "segment_loop enc sg c duration temp_dir (i # is) w =
     (let (s, w1) = make_segment enc sg c duration temp_dir i w;
          (ss, w2) = segment_loop enc sg c duration temp_dir is w1
      in (s # ss, w2))"

text \<open>
  \<open>VideoSegmenter.segment\<close>. \<open>opn\<close> is \<open>VideoFileClip(video_path)\<close>, which raises when the
  source cannot be opened; the temporary directory is created before the clip is opened.
  \<open>clip.duration or 0.0\<close> turns both \<open>None\<close> and \<open>0\<close> into \<open>0.0\<close>.
\<close>

definition segment ::
  "(string \<Rightarrow> error + 'f clip) \<Rightarrow> ('f \<Rightarrow> string) \<Rightarrow> VideoSegmenter \<Rightarrow> string
     \<Rightarrow> 'db world \<Rightarrow> (error + VideoSegment list \<times> nat) \<times> 'db world" where
  "segment opn enc sg video_path w =
     (let (temp_dir, w1) = mkdtemp w
      in case opn video_path of
           Inl e \<Rightarrow> (Inl e, w1)
         | Inr c \<Rightarrow>
             (let duration = (case clip_duration c of None \<Rightarrow> 0 | Some d \<Rightarrow> d);
                  total_segments = \<lceil>duration / of_int (segment_duration sg)\<rceil>;
                  (segments, w2) =
                     segment_loop enc sg c duration temp_dir [0..<nat total_segments] w1
              in (Inr (segments, temp_dir), w2)))"


section \<open>Transcription (\<open>_videoutil/asr.py\<close>)\<close>

text \<open>
  \<open>WhisperTranscriber.transcribe_path\<close>. \<open>create\<close> is the remote call
  \<open>audio.transcriptions.create\<close>, giving \<open>response.text\<close> (which may be \<open>None\<close>) or raising.
\<close>

definition transcribe_path ::
  "(path \<Rightarrow> error + string option) \<Rightarrow> 'db world \<Rightarrow> path option \<Rightarrow> error + string" where
  "transcribe_path create w audio =
     (case audio of
        None \<Rightarrow> Inr ''''
      | Some p \<Rightarrow>
          if \<not> path_exists w p then Inr ''''
          else (case create p of
                  Inl e \<Rightarrow> Inl e
                | Inr text \<Rightarrow> Inr (case text of None \<Rightarrow> '''' | Some t \<Rightarrow> t)))"


section \<open>Embedding input (\<open>_utils.py\<close>)\<close>

text \<open>\<open>d.get(k, default)\<close> on a dictionary.\<close>

definition dict_get :: "(string \<times> json) list \<Rightarrow> string \<Rightarrow> json \<Rightarrow> json" where
  "dict_get d k dflt = (case map_of d k of None \<Rightarrow> dflt | Some v \<Rightarrow> v)"

text \<open>
  The three branches on \<open>raw_points\<close>: a string is one point, any other iterable is listed
  (a dictionary lists its keys), anything else gives no points.
\<close>

fun points_list :: "json \<Rightarrow> json list" where
  "points_list (JStr s) = [JStr s]"
| "points_list (JArr xs) = xs"
| "points_list (JObj kvs) = map (\<lambda>kv. JStr (fst kv)) kvs"
| "points_list v = []"

text \<open>\<open>"\n".join\<close> raises \<open>TypeError\<close> on an item that is not a string.\<close>

fun str_items :: "json list \<Rightarrow> error + string list" where
  "str_items [] = Inr []"
| "str_items (JStr s # vs) =
     (case str_items vs of Inl e \<Rightarrow> Inl e | Inr ss \<Rightarrow> Inr (s # ss))"
| "str_items (v # vs) = Inl TypeError"

text \<open>
  A value inside an f-string: a string is inserted as it is, any other value through
  \<open>str\<close>, which is the parameter \<open>pystr\<close>.
\<close>

fun format_value :: "(json \<Rightarrow> string) \<Rightarrow> json \<Rightarrow> string" where
  "format_value pystr (JStr s) = s"
| "format_value pystr v = pystr v"

definition build_embedding_input ::
  "(json \<Rightarrow> string) \<Rightarrow> json \<Rightarrow> string \<Rightarrow> string \<Rightarrow> error + string" where
  "build_embedding_input pystr summary caption transcript =
     (case summary of
        JObj d \<Rightarrow>
          (case str_items (points_list (dict_get d ''key_points'' (JArr []))) of
             Inl e \<Rightarrow> Inl e
           | Inr ps \<Rightarrow>
               Inr (''Summary:'' @ [newline]
                    @ format_value pystr (dict_get d ''summary'' (JStr '''')) @ [newline]
                    @ ''Key Points:'' @ [newline] @ join [newline] ps @ [newline]
                    @ ''Caption:'' @ [newline] @ caption @ [newline]
                    @ ''Transcript:'' @ [newline] @ transcript))
      | _ \<Rightarrow> Inl AttributeError)"


section \<open>The store adapter (\<open>_storage/__init__.py\<close>)\<close>

record index_record =
  rec_session_id :: string
  rec_segment_id :: string
  rec_start :: real
  rec_end :: real
  rec_summary :: json
  rec_key_points :: json
  rec_caption :: string
  rec_transcript :: string
  rec_embedding :: "real list"

text \<open>
  The payload of the match procedure; the key \<open>similarity_threshold\<close> is present only
  when a threshold was supplied.
\<close>

record payload =
  query_embedding :: "real list"
  match_count :: int
  filter_session_id :: string
  similarity_threshold :: "real option"

text \<open>
  \<open>upsert_records\<close>: nothing is sent for an empty batch, otherwise the whole batch goes to
  the store in one call \<open>upsert_sync\<close>, whose result and effect on the store are a parameter.
\<close>

definition upsert_records ::
  "(index_record list \<Rightarrow> 'db \<Rightarrow> (error + unit) \<times> 'db) \<Rightarrow> index_record list
     \<Rightarrow> 'db world \<Rightarrow> (error + unit) \<times> 'db world" where
  "upsert_records upsert_sync records w =
     (if records = [] then (Inr (), w)
      else (let (r, db') = upsert_sync records (store w) in (r, w\<lparr>store := db'\<rparr>)))"

text \<open>
  \<open>similarity_search\<close>: builds the payload, calls the match procedure \<open>rpc_sync\<close> and returns
  \<open>response.data or []\<close>.
\<close>

definition similarity_search ::
  "(payload \<Rightarrow> 'db \<Rightarrow> error + json list option) \<Rightarrow> string \<Rightarrow> real list \<Rightarrow> int
     \<Rightarrow> real option \<Rightarrow> 'db \<Rightarrow> error + json list" where
  "similarity_search rpc_sync session_id embedding k threshold db =
     (case rpc_sync \<lparr>query_embedding = embedding, match_count = k,
                      filter_session_id = session_id, similarity_threshold = threshold\<rparr> db of
        Inl e \<Rightarrow> Inl e
      | Inr data \<Rightarrow> Inr (case data of None \<Rightarrow> [] | Some rows \<Rightarrow> rows))"


section \<open>The service (\<open>_op.py\<close>)\<close>

record evidence_item =
  ev_segment_id :: json
  ev_start :: json
  ev_end :: json
  ev_summary :: json
  ev_caption :: json
  ev_transcript :: json
  ev_similarity :: json

text \<open>
  The collaborators of the service: the decoding library, the JPEG encoding of a frame, the
  remote transcription, captioning, summarisation, embedding and answering calls (each
  returns or raises), \<open>str\<close> on a JSON value, and the two remote calls of the store.
\<close>

record ('f, 'db) services =
  VideoFileClip :: "string \<Rightarrow> error + 'f clip"
  frame_to_base64 :: "'f \<Rightarrow> string"
  transcriptions_create :: "path \<Rightarrow> error + string option"
  describe :: "VideoSegment \<Rightarrow> string \<Rightarrow> error + string"
  summarize :: "string \<Rightarrow> string \<Rightarrow> error + json"
  embed :: "string \<Rightarrow> error + real list"
  py_str :: "json \<Rightarrow> string"
  upsert_sync :: "index_record list \<Rightarrow> 'db \<Rightarrow> (error + unit) \<times> 'db"
  rpc_sync :: "payload \<Rightarrow> 'db \<Rightarrow> error + json list option"
  answer :: "string \<Rightarrow> evidence_item list \<Rightarrow> error + json"

text \<open>\<open>summary[key]\<close> on the summarizer's result.\<close>

definition subscript :: "json \<Rightarrow> string \<Rightarrow> error + json" where
  "subscript v k =
     (case v of
        JObj d \<Rightarrow> (case map_of d k of None \<Rightarrow> Inl (KeyError k) | Some x \<Rightarrow> Inr x)
      | _ \<Rightarrow> Inl TypeError)"

text \<open>The body of the loop of \<open>ingest_video\<close>: one segment to its record.\<close>

definition enrich_segment ::
  "('f, 'db) services \<Rightarrow> string \<Rightarrow> 'db world \<Rightarrow> VideoSegment \<Rightarrow> error + index_record" where
  "enrich_segment sv session_id w seg =
     (case transcribe_path (transcriptions_create sv) w (audio_path seg) of
        Inl e \<Rightarrow> Inl e
      | Inr transcript \<Rightarrow>
     (case describe sv seg transcript of
        Inl e \<Rightarrow> Inl e
      | Inr caption \<Rightarrow>
     (case summarize sv transcript caption of
        Inl e \<Rightarrow> Inl e
      | Inr summary \<Rightarrow>
     (case build_embedding_input (py_str sv) summary caption transcript of
        Inl e \<Rightarrow> Inl e
      | Inr embedding_input \<Rightarrow>
     (case embed sv embedding_input of
        Inl e \<Rightarrow> Inl e
      | Inr embedding \<Rightarrow>
     (case subscript summary ''summary'' of
        Inl e \<Rightarrow> Inl e
      | Inr summary_text \<Rightarrow>
     (case subscript summary ''key_points'' of
        Inl e \<Rightarrow> Inl e
      | Inr key_points \<Rightarrow>
          Inr \<lparr>rec_session_id = session_id, rec_segment_id = seg_id seg,
               rec_start = seg_start seg, rec_end = seg_end seg,
               rec_summary = summary_text, rec_key_points = key_points,
               rec_caption = caption, rec_transcript = transcript,
               rec_embedding = embedding\<rparr>)))))))"

fun enrich_all ::
  "('f, 'db) services \<Rightarrow> string \<Rightarrow> 'db world \<Rightarrow> VideoSegment list
     \<Rightarrow> error + index_record list" where
  "enrich_all sv session_id w [] = Inr []"
| "enrich_all sv session_id w (seg # segs) =
     (case enrich_segment sv session_id w seg of
        Inl e \<Rightarrow> Inl e
      | Inr r \<Rightarrow>
          (case enrich_all sv session_id w segs of
             Inl e \<Rightarrow> Inl e
           | Inr rs \<Rightarrow> Inr (r # rs)))"

text \<open>
  \<open>ingest_video\<close>. Segmentation runs before the \<open>try\<close>; the loop and the bulk upsert run
  inside it, and \<open>finally\<close> removes the temporary directory. \<open>sg\<close> is \<open>self.segmenter\<close>.
\<close>

definition ingest_video ::
  "('f, 'db) services \<Rightarrow> VideoSegmenter \<Rightarrow> string \<Rightarrow> string \<Rightarrow> 'db world
     \<Rightarrow> (error + unit) \<times> 'db world" where
  "ingest_video sv sg session_id video_path w =
     (case segment (VideoFileClip sv) (frame_to_base64 sv) sg video_path w of
        (Inl e, w1) \<Rightarrow> (Inl e, w1)
      | (Inr (segments, temp_dir), w1) \<Rightarrow>
          (let (r, w2) =
                 (case enrich_all sv session_id w1 segments of
                    Inl e \<Rightarrow> (Inl e, w1)
                  | Inr records \<Rightarrow> upsert_records (upsert_sync sv) records w1)
           in (r, rmtree temp_dir w2)))"

text \<open>Python truthiness, as \<open>or\<close> tests it.\<close>

fun py_truthy :: "json \<Rightarrow> bool" where
  "py_truthy JNull = False"
| "py_truthy (JBool b) = b"
| "py_truthy (JNum x) = (x \<noteq> 0)"
| "py_truthy (JStr s) = (s \<noteq> [])"
| "py_truthy (JArr xs) = (xs \<noteq> [])"
| "py_truthy (JObj kvs) = (kvs \<noteq> [])"

text \<open>
  The body of the loop of \<open>query\<close>: \<open>data = match.get("metadata", match)\<close>, then the seven
  projections. \<open>.get\<close> on a value that is not a dictionary raises \<open>AttributeError\<close>.
\<close>

definition evidence_of_match :: "json \<Rightarrow> error + evidence_item" where
  "evidence_of_match match =
     (case match of
        JObj m \<Rightarrow>
          (case dict_get m ''metadata'' match of
             JObj d \<Rightarrow>
               Inr \<lparr>ev_segment_id = dict_get d ''segment_id'' JNull,
                    ev_start = dict_get d ''start'' JNull,
                    ev_end = dict_get d ''end'' JNull,
                    ev_summary = dict_get d ''summary'' JNull,
                    ev_caption = dict_get d ''caption'' JNull,
                    ev_transcript = dict_get d ''transcript'' JNull,
                    ev_similarity =
                      (if py_truthy (dict_get m ''similarity'' JNull)
                       then dict_get m ''similarity'' JNull
                       else dict_get d ''similarity'' JNull)\<rparr>
           | _ \<Rightarrow> Inl AttributeError)
      | _ \<Rightarrow> Inl AttributeError)"

fun assemble_evidence :: "json list \<Rightarrow> error + evidence_item list" where
  "assemble_evidence [] = Inr []"
| "assemble_evidence (m # ms) =
     (case evidence_of_match m of
        Inl e \<Rightarrow> Inl e
      | Inr ev \<Rightarrow>
          (case assemble_evidence ms of
             Inl e \<Rightarrow> Inl e
           | Inr evs \<Rightarrow> Inr (ev # evs)))"

definition query ::
  "('f, 'db) services \<Rightarrow> string \<Rightarrow> string \<Rightarrow> int \<Rightarrow> real option \<Rightarrow> 'db world
     \<Rightarrow> error + json" where
  "query sv session_id question top_k threshold w =
     (case embed sv question of
        Inl e \<Rightarrow> Inl e
      | Inr question_embedding \<Rightarrow>
     (case similarity_search (rpc_sync sv) session_id question_embedding top_k threshold
             (store w) of
        Inl e \<Rightarrow> Inl e
      | Inr matches \<Rightarrow>
     (case assemble_evidence matches of
        Inl e \<Rightarrow> Inl e
      | Inr evidence \<Rightarrow> answer sv question evidence)))"


section \<open>The remote store\<close>

text \<open>
  The store is a remote service; the source only calls it, and none of its code is part of
  the source.
\<close>

text \<open>
  Modelled from the spec: the key of a record in the store, which is not part of the source.
  Section 3 of the specification: one record per (session_id, segment_id).
\<close>

definition same_key :: "index_record \<Rightarrow> index_record \<Rightarrow> bool" where
  "same_key r r' =
     (rec_session_id r = rec_session_id r' \<and> rec_segment_id r = rec_segment_id r')"

text \<open>
  Modelled from the spec: the write of one record by the store, which is not part of the
  source. Section 4.6 of the specification: writing a segment id that is already there
  overwrites its record. The contents of the store are the list of its records.
\<close>

definition put_record :: "index_record list \<Rightarrow> index_record \<Rightarrow> index_record list" where
  "put_record table r =
     (if list_ex (same_key r) table
      then map (\<lambda>r'. if same_key r r' then r else r') table
      else table @ [r])"

text \<open>
  Modelled from the spec: the store's bulk upsert, which is not part of the source. Section
  4.6 of the specification: the upsert overwrites by (session_id, segment_id), and a
  partial-batch failure (some records write, others do not) is reported as
  \<open>PartialUpsertError\<close> listing the segment ids that failed. Which segment ids the store
  fails to write is the parameter \<open>failing\<close>.
\<close>

definition store_upsert ::
  "string list \<Rightarrow> index_record list \<Rightarrow> index_record list
     \<Rightarrow> (error + unit) \<times> index_record list" where
  "store_upsert failing records table =
     (let written = filter (\<lambda>r. rec_segment_id r \<notin> set failing) records;
          failed = filter (\<lambda>r. rec_segment_id r \<in> set failing) records
      in (if failed = [] then Inr () else Inl (PartialUpsertError (map rec_segment_id failed)),
          foldl put_record table written))"

text \<open>
  Modelled from the spec: one match returned by the store's match procedure, which is not
  part of the source. Section 6 of the specification: a match has a similarity score and a
  metadata payload; the payload holds the fields that \<open>query\<close> projects.
\<close>

definition match_row :: "real \<times> index_record \<Rightarrow> json" where
  "match_row sr =
     JObj [(''similarity'', JNum (fst sr)),
           (''metadata'',
            JObj [(''segment_id'', JStr (rec_segment_id (snd sr))),
                  (''start'', JNum (rec_start (snd sr))),
                  (''end'', JNum (rec_end (snd sr))),
                  (''summary'', rec_summary (snd sr)),
                  (''caption'', JStr (rec_caption (snd sr))),
                  (''transcript'', JStr (rec_transcript (snd sr)))])]"

text \<open>
  Modelled from the spec: the store's match procedure, which is not part of the source.
  Sections 4.6 and 6 of the specification: it takes the query embedding, the match count,
  the session filter and an optional similarity threshold; its results are restricted to
  the session, filtered to similarity at least the threshold when one is supplied, ranked by
  descending similarity and truncated to the match count; each match carries a similarity
  score and a metadata payload. The similarity measure is the parameter \<open>sim\<close>.
\<close>

definition store_match ::
  "(real list \<Rightarrow> real list \<Rightarrow> real) \<Rightarrow> payload \<Rightarrow> index_record list
     \<Rightarrow> error + json list option" where
  "store_match sim p table =
     (let in_session = filter (\<lambda>r. rec_session_id r = filter_session_id p) table;
          scored = map (\<lambda>r. (sim (query_embedding p) (rec_embedding r), r)) in_session;
          kept = (case similarity_threshold p of
                    None \<Rightarrow> scored
                  | Some t \<Rightarrow> filter (\<lambda>sr. t \<le> fst sr) scored);
          ranked = sort_key (\<lambda>sr. - fst sr) kept
      in Inr (Some (map match_row (take (nat (match_count p)) ranked))))"


section \<open>The identity of a segment as the specification words it\<close>

text \<open>
  The specification derives the identity from the index and the millisecond-rounded start
  and end. This is that reading, with rounding to the nearest millisecond, to be compared
  with \<^const>\<open>segment_id\<close>.
\<close>

definition segment_id_rounded :: "nat \<Rightarrow> real \<Rightarrow> real \<Rightarrow> string" where
  "segment_id_rounded index start end_t =
     ''seg-'' @ format_04d index @ ''-'' @ str_int (round (start * 1000))
       @ ''-'' @ str_int (round (end_t * 1000))"


section \<open>Concrete inputs\<close>

definition sample_world :: "index_record list world" where
  "sample_world = \<lparr>tmp_counter = 0, dirs = [], files = [], store = []\<rparr>"

definition sample_clip :: "real option \<Rightarrow> bool \<Rightarrow> nat clip" where
  "sample_clip d audio =
     \<lparr>clip_duration = d, clip_get_frame = (\<lambda>t. 0), clip_has_audio = audio\<rparr>"

text \<open>The float nearest to 65.46, the duration of a video of 65.46 seconds.\<close>

definition sample_duration :: real where
  "sample_duration = double_round (6546 / 100)"

definition sample_encode :: "nat \<Rightarrow> string" where
  "sample_encode f = ''frame''"

text \<open>The decoder opens every path but \<open>missing.mp4\<close>.\<close>

definition sample_open :: "real option \<Rightarrow> bool \<Rightarrow> string \<Rightarrow> error + nat clip" where
  "sample_open d audio video_path =
     (if video_path = ''missing.mp4'' then Inl (OSError ''file not found'')
      else Inr (sample_clip d audio))"

definition dot :: "real list \<Rightarrow> real list \<Rightarrow> real" where
  "dot xs ys = sum_list (map (\<lambda>xy. fst xy * snd xy) (zip xs ys))"

definition sample_summary :: json where
  "sample_summary = JObj [(''summary'', JStr ''S''), (''key_points'', JArr [JStr ''a'', JStr ''b''])]"

text \<open>
  Services that all succeed, over a silent clip of the given duration and a store that
  fails to write the given segment ids.
\<close>

definition sample_services ::
  "real option \<Rightarrow> string list \<Rightarrow> (nat, index_record list) services" where
  "sample_services d failing =
     \<lparr>VideoFileClip = sample_open d False,
      frame_to_base64 = sample_encode,
      transcriptions_create = (\<lambda>p. Inr (Some ''T'')),
      describe = (\<lambda>seg transcript. Inr ''C''),
      summarize = (\<lambda>transcript caption. Inr sample_summary),
      embed = (\<lambda>text. Inr [1, 0]),
      py_str = (\<lambda>v. ''?''),
      upsert_sync = store_upsert failing,
      rpc_sync = store_match dot,
      answer = (\<lambda>question evidence. Inr (JObj [(''answer'', JStr ''A'')]))\<rparr>"

definition sample_record :: "string \<Rightarrow> string \<Rightarrow> real list \<Rightarrow> index_record" where
  "sample_record session_id sid v =
     \<lparr>rec_session_id = session_id, rec_segment_id = sid, rec_start = 0, rec_end = 30,
      rec_summary = JStr ''S'', rec_key_points = JArr [], rec_caption = ''C'',
      rec_transcript = ''T'', rec_embedding = v\<rparr>"


text \<open>The two segments of a silent video of 60 seconds, and their records in session \<open>s\<close>.\<close>

definition sample_segments :: "VideoSegment list" where
  "sample_segments =
     [\<lparr>seg_id = ''seg-0000-0-30000'', seg_start = 0, seg_end = 30,
        frames_base64 = [], audio_path = None\<rparr>,
      \<lparr>seg_id = ''seg-0001-30000-60000'', seg_start = 30, seg_end = 60,
        frames_base64 = [], audio_path = None\<rparr>]"

definition sample_records :: "index_record list" where
  "sample_records =
     [\<lparr>rec_session_id = ''s'', rec_segment_id = ''seg-0000-0-30000'',
        rec_start = 0, rec_end = 30, rec_summary = JStr ''S'',
        rec_key_points = JArr [JStr ''a'', JStr ''b''], rec_caption = ''C'',
        rec_transcript = [], rec_embedding = [1, 0]\<rparr>,
      \<lparr>rec_session_id = ''s'', rec_segment_id = ''seg-0001-30000-60000'',
        rec_start = 30, rec_end = 60, rec_summary = JStr ''S'',
        rec_key_points = JArr [JStr ''a'', JStr ''b''], rec_caption = ''C'',
        rec_transcript = [], rec_embedding = [1, 0]\<rparr>]"

text \<open>The same services with an embedding service that is down.\<close>

definition sample_services_embed_down :: "(nat, index_record list) services" where
  "sample_services_embed_down =
     (sample_services (Some 60) [])\<lparr>embed := (\<lambda>text. Inl (ServiceError ''down''))\<rparr>"


section \<open>Segmentation: count and boundaries\<close>

text \<open>
  The segment built at an index does not depend on the world; the loop only adds the audio
  files to it.
\<close>

lemma float_of_py_min: "float_of (py_min a d) = min (of_int a) d"
  by (simp add: py_min_def)

lemma fst_make_segment:
  "fst (make_segment enc sg c D td i w) =
     \<lparr>seg_id = segment_id i (int i * segment_duration sg)
                (py_min ((int i + 1) * segment_duration sg) D),
      seg_start = of_int (int i * segment_duration sg),
      seg_end = min (of_int ((int i + 1) * segment_duration sg)) D,
      frames_base64 =
        map (\<lambda>t. enc (clip_get_frame c (of_int (int i * segment_duration sg) + t)))
          (frame_offsets sg
             (min (of_int ((int i + 1) * segment_duration sg)) D
                - of_int (int i * segment_duration sg))),
      audio_path =
        (if clip_has_audio c
         then Some (td, segment_id i (int i * segment_duration sg)
                (py_min ((int i + 1) * segment_duration sg) D) @ ''.mp3'')
         else None)\<rparr>"
  by (simp add: make_segment_def Let_def float_of_py_min)

lemma fst_segment_loop:
  "fst (segment_loop enc sg c D td is w) = map (\<lambda>i. fst (make_segment enc sg c D td i w0)) is"
proof (induction "is" arbitrary: w)
  case Nil
  show ?case by simp
next
  case (Cons i "is")
  show ?case
    by (simp add: split_beta Let_def Cons.IH fst_make_segment)
qed

lemma segment_opened:
  "opn p = Inr c \<Longrightarrow>
   fst (segment opn enc sg p w) =
     Inr (map (\<lambda>i. fst (make_segment enc sg c (case clip_duration c of None \<Rightarrow> 0 | Some d \<Rightarrow> d)
                         (tmp_counter w) i w))
            [0..<nat \<lceil>(case clip_duration c of None \<Rightarrow> 0 | Some d \<Rightarrow> d) / of_int (segment_duration sg)\<rceil>],
          tmp_counter w)"
  by (simp add: segment_def mkdtemp_def split_beta Let_def fst_segment_loop [where ?w0.0 = w] fst_make_segment)

lemma ceiling_div_pos:
  fixes D :: real and S :: int
  assumes "0 < D" "0 < S"
  shows "0 < \<lceil>D / of_int S\<rceil>"
  using assms by (simp add: ceiling_less_iff[symmetric] less_ceiling_iff)

text \<open>
  Claim C1. For every media duration \<open>D > 0\<close> and configured segment duration \<open>S > 0\<close>,
  \<open>segment\<close> returns exactly \<open>ceil(D / S)\<close> segments; segment \<open>i\<close> starts at \<open>i * S\<close> and ends
  at \<open>min((i + 1) * S, D)\<close>; the last segment ends at \<open>D\<close> and no segment ends after \<open>D\<close>.
\<close>

theorem segment_count_and_bounds:
  assumes D: "0 < D" and S: "0 < S"
    and opn: "opn video_path = Inr c" and dur: "clip_duration c = Some D"
  shows "\<exists>segs temp_dir.
           fst (segment opn enc (new_VideoSegmenter S fps) video_path w) = Inr (segs, temp_dir)
         \<and> int (length segs) = \<lceil>D / of_int S\<rceil>
         \<and> (\<forall>i < length segs.
                seg_start (segs ! i) = of_nat i * of_int S
              \<and> seg_end (segs ! i) = min ((of_nat i + 1) * of_int S) D)
         \<and> seg_end (last segs) = D
         \<and> (\<forall>s \<in> set segs. seg_end s \<le> D)"
proof -
  let ?sg = "new_VideoSegmenter S fps"
  let ?n = "nat \<lceil>D / of_int S\<rceil>"
  let ?mk = "\<lambda>i. fst (make_segment enc ?sg c D (tmp_counter w) i w)"
  let ?segs = "map ?mk [0..<?n]"
  have sd: "segment_duration ?sg = S"
    using S by (simp add: new_VideoSegmenter_def)
  have run: "fst (segment opn enc ?sg video_path w) = Inr (?segs, tmp_counter w)"
    using opn by (simp add: segment_opened dur sd)
  have npos: "0 < \<lceil>D / of_int S\<rceil>"
    using D S by (rule ceiling_div_pos)
  have len: "int (length ?segs) = \<lceil>D / of_int S\<rceil>"
    using npos by simp
  have at: "seg_start (?segs ! i) = of_nat i * of_int S
          \<and> seg_end (?segs ! i) = min ((of_nat i + 1) * of_int S) D" if "i < length ?segs" for i
    using that by (simp add: fst_make_segment sd)
  have all_le: "\<forall>s \<in> set ?segs. seg_end s \<le> D"
    by (auto simp: fst_make_segment)
  have ne: "?segs \<noteq> []"
    using npos by simp
  have "D \<le> of_int \<lceil>D / of_int S\<rceil> * of_int S"
    using S by (simp add: pos_divide_le_eq [symmetric])
  moreover have "of_int \<lceil>D / of_int S\<rceil> = real (?n - 1) + 1"
  proof -
    from npos obtain m where m: "?n = Suc m"
      by (cases ?n) auto
    have "real ?n = of_int \<lceil>D / of_int S\<rceil>"
      using npos by (metis of_nat_nat less_imp_le of_int_of_nat_eq)
    with m show ?thesis
      by simp
  qed
  ultimately have bound: "D \<le> (real (?n - 1) + 1) * of_int S"
    by simp
  have "last ?segs = ?segs ! (?n - 1)"
    using last_conv_nth [OF ne] by simp
  moreover have "?n - 1 < length ?segs"
    using npos by simp
  ultimately have "seg_end (last ?segs) = min ((real (?n - 1) + 1) * of_int S) D"
    using at by simp
  then have lst: "seg_end (last ?segs) = D"
    using bound by (simp only: min_absorb2)
  show ?thesis
    using run len at all_le lst by blast
qed

text \<open>
  The 65 second video cut in segments of 30 seconds: three segments, the last ending at 65.
\<close>

theorem segment_count_and_bounds_witness:
  "(0::real) < 65 \<and> (0::int) < 30
   \<and> sample_open (Some 65) False ''v.mp4'' = Inr (sample_clip (Some 65) False)
   \<and> clip_duration (sample_clip (Some 65) False) = Some 65
   \<and> (\<exists>segs temp_dir.
           fst (segment (sample_open (Some 65) False) sample_encode (new_VideoSegmenter 30 6)
                  ''v.mp4'' sample_world) = Inr (segs, temp_dir)
         \<and> int (length segs) = 3
         \<and> (\<forall>i < length segs.
                seg_start (segs ! i) = of_nat i * 30
              \<and> seg_end (segs ! i) = min ((of_nat i + 1) * 30) 65)
         \<and> seg_end (last segs) = 65
         \<and> (\<forall>s \<in> set segs. seg_end s \<le> 65))"
proof -
  have o: "sample_open (Some 65) False ''v.mp4'' = Inr (sample_clip (Some 65) False)"
    by (simp add: sample_open_def)
  have d: "clip_duration (sample_clip (Some 65) False) = Some 65"
    by (simp add: sample_clip_def)
  show ?thesis
    using segment_count_and_bounds [where D = 65 and S = 30
        and opn = "sample_open (Some 65) False" and video_path = "''v.mp4''"
        and c = "sample_clip (Some 65) False" and enc = sample_encode and fps = 6
        and w = sample_world] o d
    by simp
qed


section \<open>Transcription without audio\<close>

text \<open>
  Claim C5. For every segment whose audio handle is \<open>None\<close> or names a file that does not
  exist, \<open>transcribe_path\<close> returns the empty string and raises no error, whatever the
  transcription service would do.
\<close>

theorem transcribe_path_no_audio:
  assumes "audio = None \<or> (\<exists>p. audio = Some p \<and> \<not> path_exists w p)"
  shows "transcribe_path create w audio = Inr ''''"
  using assms by (auto simp: transcribe_path_def)

text \<open>A handle to a file that is not there, with a service that would raise.\<close>

theorem transcribe_path_no_audio_witness:
  "(Some (0, ''seg-0000-0-30000.mp3'') = (None :: path option)
      \<or> (\<exists>p. Some (0, ''seg-0000-0-30000.mp3'') = Some p \<and> \<not> path_exists sample_world p))
   \<and> transcribe_path (\<lambda>p. Inl (ServiceError ''down'')) sample_world
         (Some (0, ''seg-0000-0-30000.mp3'')) = Inr ''''"
proof -
  have h: "Some (0, ''seg-0000-0-30000.mp3'') = (None :: path option)
      \<or> (\<exists>p. Some (0, ''seg-0000-0-30000.mp3'') = Some p \<and> \<not> path_exists sample_world p)"
    by (simp add: path_exists_def sample_world_def)
  show ?thesis
    using h transcribe_path_no_audio [OF h, of "\<lambda>p. Inl (ServiceError ''down'')"] by blast
qed

section \<open>Embedding input\<close>

lemma str_items_strings: "str_items (map JStr ps) = Inr ps"
  by (induction ps) simp_all

text \<open>
  Claim C8. For every summary object (a summary string and a list of key point strings),
  caption and transcript, the embedding input is the concatenation, in this order, of the
  summary, the key points joined with newlines, the caption and the transcript, each on a
  new line after its header \<open>Summary:\<close>, \<open>Key Points:\<close>, \<open>Caption:\<close>, \<open>Transcript:\<close>.
\<close>

theorem build_embedding_input_layout:
  assumes "map_of d ''summary'' = Some (JStr s)"
    and "map_of d ''key_points'' = Some (JArr (map JStr ps))"
  shows "build_embedding_input pystr (JObj d) caption transcript =
           Inr (''Summary:'' @ [newline] @ s @ [newline]
                @ ''Key Points:'' @ [newline] @ join [newline] ps @ [newline]
                @ ''Caption:'' @ [newline] @ caption @ [newline]
                @ ''Transcript:'' @ [newline] @ transcript)"
  using assms by (simp add: build_embedding_input_def dict_get_def str_items_strings)

theorem build_embedding_input_layout_witness:
  "map_of [(''summary'', JStr ''S''), (''key_points'', JArr (map JStr [''a'', ''b'']))] ''summary''
     = Some (JStr ''S'')
   \<and> map_of [(''summary'', JStr ''S''), (''key_points'', JArr (map JStr [''a'', ''b'']))]
       ''key_points'' = Some (JArr (map JStr [''a'', ''b'']))
   \<and> build_embedding_input (\<lambda>v. ''?'')
       (JObj [(''summary'', JStr ''S''), (''key_points'', JArr (map JStr [''a'', ''b'']))])
       ''C'' ''T''
     = Inr (''Summary:'' @ [newline] @ ''S'' @ [newline]
            @ ''Key Points:'' @ [newline] @ ''a'' @ [newline] @ ''b'' @ [newline]
            @ ''Caption:'' @ [newline] @ ''C'' @ [newline]
            @ ''Transcript:'' @ [newline] @ ''T'')"
  using build_embedding_input_layout
    [where d = "[(''summary'', JStr ''S''), (''key_points'', JArr (map JStr [''a'', ''b'']))]"
       and s = "''S''" and ps = "[''a'', ''b'']" and pystr = "\<lambda>v. ''?''"
       and caption = "''C''" and transcript = "''T''"]
  by simp


section \<open>Sources that cannot be segmented\<close>

text \<open>
  Claim C6 says that a source that cannot be opened, or whose duration is not positive,
  makes \<open>segment\<close> fail with \<open>MediaReadError\<close>. A clip that opens with duration 0 is
  segmented without error: the result is the empty list of segments and the workspace.
\<close>

theorem segment_zero_duration_counterexample:
  "fst (segment (sample_open (Some 0) False) sample_encode (new_VideoSegmenter 30 6)
          ''v.mp4'' sample_world) = Inr ([], 0)"
  by (simp add: segment_def mkdtemp_def sample_open_def sample_clip_def sample_world_def)

text \<open>
  Claim C6 as amended. When the source cannot be opened, \<open>segment\<close> fails with the error of
  the decoding library, unchanged; when the source opens and its duration is missing or
  not positive, \<open>segment\<close> returns no segments, together with the workspace it created.
\<close>

theorem segment_unreadable_or_empty:
  "(opn video_path = Inl e \<longrightarrow>
      fst (segment opn enc (new_VideoSegmenter sd fps) video_path w) = Inl e)
   \<and> (opn video_path = Inr c
        \<and> (clip_duration c = None \<or> (\<exists>d. clip_duration c = Some d \<and> d \<le> 0)) \<longrightarrow>
      fst (segment opn enc (new_VideoSegmenter sd fps) video_path w) = Inr ([], tmp_counter w))"
proof -
  have neg: "nat \<lceil>d / real_of_int (max 1 sd)\<rceil> = 0" if "d \<le> 0" for d :: real
  proof -
    have "d / real_of_int (max 1 sd) \<le> 0"
      using that by (simp add: divide_nonpos_pos)
    then have "\<lceil>d / real_of_int (max 1 sd)\<rceil> \<le> 0"
      by (simp add: ceiling_le_zero)
    then show ?thesis
      by simp
  qed
  show ?thesis
    by (auto simp: segment_def mkdtemp_def new_VideoSegmenter_def neg split_beta Let_def)
qed

theorem segment_unreadable_or_empty_witness:
  "sample_open None False ''missing.mp4'' = Inl (OSError ''file not found'')
   \<and> fst (segment (sample_open None False) sample_encode (new_VideoSegmenter 30 6)
            ''missing.mp4'' sample_world) = Inl (OSError ''file not found'')
   \<and> sample_open None False ''v.mp4'' = Inr (sample_clip None False)
   \<and> clip_duration (sample_clip None False) = None
   \<and> fst (segment (sample_open None False) sample_encode (new_VideoSegmenter 30 6)
            ''v.mp4'' sample_world) = Inr ([], tmp_counter sample_world)"
proof -
  have a: "sample_open None False ''missing.mp4'' = Inl (OSError ''file not found'')"
    by (simp add: sample_open_def)
  have b: "sample_open None False ''v.mp4'' = Inr (sample_clip None False)"
    by (simp add: sample_open_def)
  have c: "clip_duration (sample_clip None False) = None"
    by (simp add: sample_clip_def)
  have "fst (segment (sample_open None False) sample_encode (new_VideoSegmenter 30 6)
            ''missing.mp4'' sample_world) = Inl (OSError ''file not found'')"
    using segment_unreadable_or_empty
      [where opn = "sample_open None False" and video_path = "''missing.mp4''"
         and e = "OSError ''file not found''" and enc = sample_encode and sd = 30 and fps = 6
         and w = sample_world] a
    by blast
  moreover
  have "fst (segment (sample_open None False) sample_encode (new_VideoSegmenter 30 6)
            ''v.mp4'' sample_world) = Inr ([], tmp_counter sample_world)"
    using segment_unreadable_or_empty
      [where opn = "sample_open None False" and video_path = "''v.mp4''"
         and c = "sample_clip None False" and enc = sample_encode and sd = 30 and fps = 6
         and w = sample_world] b c
    by blast
  ultimately show ?thesis
    using a b c by blast
qed


section \<open>Evidence assembly\<close>

text \<open>
  Claim C10 says that a top-level similarity of exactly 0 is never itself reported. A match
  without a \<open>metadata\<close> key is its own payload, so its top-level similarity 0 is read
  again from the payload and reported.
\<close>

theorem evidence_similarity_zero_counterexample:
  "evidence_of_match (JObj [(''segment_id'', JStr ''seg-0000-0-30000''), (''similarity'', JNum 0)])
     = Inr \<lparr>ev_segment_id = JStr ''seg-0000-0-30000'', ev_start = JNull, ev_end = JNull,
            ev_summary = JNull, ev_caption = JNull, ev_transcript = JNull,
            ev_similarity = JNum 0\<rparr>"
  by (simp add: evidence_of_match_def dict_get_def)

text \<open>
  Claim C10 as amended. The payload of a match is its \<open>metadata\<close> object when the match has
  that key, and the match itself otherwise. For every match whose top-level similarity is
  absent or equal to 0 and whose payload is an object, the evidence item is assembled
  without error, its similarity is the payload's similarity, or \<open>None\<close> when the payload
  has none, and every other projected field is the payload's field, or \<open>None\<close> when the
  payload has none. So a top-level 0 is replaced by the similarity of the metadata (or by
  \<open>None\<close>) when the match carries a metadata object, and is reported as 0 when the match
  has no \<open>metadata\<close> key.
\<close>

theorem evidence_of_match_projection:
  assumes top: "map_of m ''similarity'' = None \<or> map_of m ''similarity'' = Some (JNum 0)"
    and payload: "dict_get m ''metadata'' (JObj m) = JObj d"
  shows "\<exists>ev. evidence_of_match (JObj m) = Inr ev
           \<and> ev_similarity ev = dict_get d ''similarity'' JNull
           \<and> ev_segment_id ev = dict_get d ''segment_id'' JNull
           \<and> ev_start ev = dict_get d ''start'' JNull
           \<and> ev_end ev = dict_get d ''end'' JNull
           \<and> ev_summary ev = dict_get d ''summary'' JNull
           \<and> ev_caption ev = dict_get d ''caption'' JNull
           \<and> ev_transcript ev = dict_get d ''transcript'' JNull
           \<and> (map_of m ''metadata'' \<noteq> None \<and> map_of d ''similarity'' = None
                \<longrightarrow> ev_similarity ev = JNull)
           \<and> (map_of m ''metadata'' = None \<and> map_of m ''similarity'' = Some (JNum 0)
                \<longrightarrow> ev_similarity ev = JNum 0)
           \<and> (map_of m ''metadata'' = None \<and> map_of m ''similarity'' = None
                \<longrightarrow> ev_similarity ev = JNull)"
proof -
  have falsy: "\<not> py_truthy (dict_get m ''similarity'' JNull)"
    using top by (auto simp: dict_get_def)
  have same: "d = m" if "map_of m ''metadata'' = None"
    using that payload by (simp add: dict_get_def)
  show ?thesis
    using payload falsy same by (auto simp: evidence_of_match_def dict_get_def)
qed

text \<open>
  A match with top-level similarity 0 and a metadata object that carries the similarity
  0.5: the item reports 0.5, and its missing fields are \<open>None\<close>.
\<close>

theorem evidence_of_match_projection_witness:
  "(map_of [(''similarity'', JNum 0), (''metadata'', JObj [(''similarity'', JNum (1 / 2))])]
       ''similarity'' = None
    \<or> map_of [(''similarity'', JNum 0), (''metadata'', JObj [(''similarity'', JNum (1 / 2))])]
       ''similarity'' = Some (JNum 0))
   \<and> dict_get [(''similarity'', JNum 0), (''metadata'', JObj [(''similarity'', JNum (1 / 2))])]
        ''metadata''
        (JObj [(''similarity'', JNum 0), (''metadata'', JObj [(''similarity'', JNum (1 / 2))])])
      = JObj [(''similarity'', JNum (1 / 2))]
   \<and> (\<exists>ev. evidence_of_match
              (JObj [(''similarity'', JNum 0),
                     (''metadata'', JObj [(''similarity'', JNum (1 / 2))])]) = Inr ev
          \<and> ev_similarity ev = JNum (1 / 2)
          \<and> ev_segment_id ev = JNull)"
  using evidence_of_match_projection
    [where m = "[(''similarity'', JNum 0), (''metadata'', JObj [(''similarity'', JNum (1 / 2))])]"
       and d = "[(''similarity'', JNum (1 / 2))]"]
  by (auto simp: dict_get_def)


section \<open>Keyframe offsets\<close>

lemma linspace_length: "0 \<le> n \<Longrightarrow> int (length (linspace a b n)) = n"
  by (simp add: linspace_def)

lemma linspace_nth:
  "j < length (linspace a b n) \<Longrightarrow> linspace a b n ! j = a + real j * ((b - a) / of_int n)"
  by (simp add: linspace_def)

lemma frame_offsets_props:
  assumes d: "0 < d" and n: "0 \<le> frames_per_segment sg"
  shows "int (length (frame_offsets sg d)) = frames_per_segment sg"
    and "\<forall>j < length (frame_offsets sg d).
           frame_offsets sg d ! j
             = real j * (max (d - 1 / 1000) 0 / of_int (frames_per_segment sg))"
    and "\<forall>t \<in> set (frame_offsets sg d). 0 \<le> t \<and> t < d"
proof -
  let ?n = "frames_per_segment sg"
  let ?stop = "max (d - 1 / 1000) 0"
  show len: "int (length (frame_offsets sg d)) = ?n"
    using d n by (simp add: frame_offsets_def linspace_def)
  show nth: "\<forall>j < length (frame_offsets sg d).
           frame_offsets sg d ! j = real j * (?stop / of_int ?n)"
    using d by (simp add: frame_offsets_def linspace_def)
  have stop: "0 \<le> ?stop" "?stop < d"
    using d by auto
  show "\<forall>t \<in> set (frame_offsets sg d). 0 \<le> t \<and> t < d"
  proof
    fix t
    assume "t \<in> set (frame_offsets sg d)"
    then obtain j where j: "j < length (frame_offsets sg d)" and t: "t = frame_offsets sg d ! j"
      by (auto simp: in_set_conv_nth)
    from j len have jn: "int j < ?n"
      by linarith
    then have npos: "0 < real_of_int ?n" and jr: "real j < real_of_int ?n"
      by linarith+
    have teq: "t = real j * (?stop / of_int ?n)"
      using t nth j by simp
    have "0 \<le> real j * (?stop / of_int ?n)"
      using stop(1) npos by (intro mult_nonneg_nonneg divide_nonneg_pos) simp_all
    moreover have "real j * (?stop / of_int ?n) \<le> ?stop"
    proof -
      have "real j * (?stop / of_int ?n) = (real j / of_int ?n) * ?stop"
        by simp
      also have "\<dots> \<le> 1 * ?stop"
        using jr npos stop(1) by (intro mult_right_mono) (simp_all add: divide_le_eq)
      finally show ?thesis
        by simp
    qed
    ultimately show "0 \<le> t \<and> t < d"
      using teq stop(2) by linarith
  qed
qed

text \<open>Every segment that \<open>segment\<close> produces starts before the end of the media.\<close>

lemma segment_nth:
  assumes opn: "opn video_path = Inr c"
    and run: "fst (segment opn enc sg video_path w) = Inr (segs, temp_dir)"
    and i: "i < length segs"
    and S: "0 < segment_duration sg"
  shows "segs ! i = fst (make_segment enc sg c
                           (case clip_duration c of None \<Rightarrow> 0 | Some d \<Rightarrow> d) temp_dir i w)"
    and "of_int (int i * segment_duration sg)
           < (case clip_duration c of None \<Rightarrow> 0 | Some d \<Rightarrow> d)"
proof -
  let ?D = "case clip_duration c of None \<Rightarrow> 0 | Some d \<Rightarrow> d"
  let ?n = "nat \<lceil>?D / of_int (segment_duration sg)\<rceil>"
  have segs: "segs = map (\<lambda>i. fst (make_segment enc sg c ?D (tmp_counter w) i w)) [0..<?n]"
    and td: "temp_dir = tmp_counter w"
    using run opn by (auto simp: segment_opened)
  have len: "i < ?n"
    using i segs by simp
  show "segs ! i = fst (make_segment enc sg c ?D temp_dir i w)"
    using len by (simp add: segs td)
  have "int i < \<lceil>?D / of_int (segment_duration sg)\<rceil>"
    using len by linarith
  then have "of_int (int i) < ?D / of_int (segment_duration sg)"
    by (simp only: less_ceiling_iff)
  then have "of_int (int i) * of_int (segment_duration sg) < ?D"
    using S by (simp add: pos_less_divide_eq)
  then show "of_int (int i * segment_duration sg) < ?D"
    by simp
qed

text \<open>
  Claim C7. For every segment, the keyframes are the frames at exactly
  \<open>frames_per_segment\<close> offsets into the segment; the offsets are evenly spaced from 0 (offset
  \<open>j\<close> is \<open>j\<close> steps), lie in the half-open interval from 0 to the segment's duration, which
  is within \<open>[0, segment_duration)\<close>, and include offset 0 when \<open>frames_per_segment\<close> is at
  least 1; when \<open>frames_per_segment\<close> is 0 there are no offsets.
\<close>

theorem keyframe_offsets_even:
  assumes opn: "opn video_path = Inr c"
    and run: "fst (segment opn enc (new_VideoSegmenter sd fps) video_path w) = Inr (segs, temp_dir)"
    and i: "i < length segs"
  shows "let sg = new_VideoSegmenter sd fps;
             n = frames_per_segment sg;
             dur = seg_end (segs ! i) - seg_start (segs ! i);
             offs = frame_offsets sg dur
         in frames_base64 (segs ! i)
              = map (\<lambda>t. enc (clip_get_frame c (seg_start (segs ! i) + t))) offs
          \<and> int (length offs) = n
          \<and> (\<forall>j < length offs. offs ! j = real j * (max (dur - 1 / 1000) 0 / of_int n))
          \<and> (\<forall>t \<in> set offs. 0 \<le> t \<and> t < dur \<and> t < of_int (segment_duration sg))
          \<and> (1 \<le> n \<longrightarrow> offs ! 0 = 0)
          \<and> (n = 0 \<longrightarrow> offs = [])"
proof -
  let ?sg = "new_VideoSegmenter sd fps"
  let ?S = "segment_duration ?sg"
  let ?n = "frames_per_segment ?sg"
  let ?D = "case clip_duration c of None \<Rightarrow> 0 | Some d \<Rightarrow> d"
  let ?dur = "seg_end (segs ! i) - seg_start (segs ! i)"
  let ?offs = "frame_offsets ?sg ?dur"
  have S: "0 < ?S" and n: "0 \<le> ?n"
    by (simp_all add: new_VideoSegmenter_def)
  note nth = segment_nth [OF opn run i S]
  have st: "seg_start (segs ! i) = of_int (int i * ?S)"
    and en: "seg_end (segs ! i) = min (of_int ((int i + 1) * ?S)) ?D"
    and fr: "frames_base64 (segs ! i)
               = map (\<lambda>t. enc (clip_get_frame c (of_int (int i * ?S) + t)))
                   (frame_offsets ?sg (min (of_int ((int i + 1) * ?S)) ?D - of_int (int i * ?S)))"
    by (simp_all add: nth(1) fst_make_segment)
  have "real_of_int (int i * ?S) < real_of_int ((int i + 1) * ?S)"
    using S by (simp add: algebra_simps)
  then have dpos: "0 < ?dur"
    using nth(2) by (simp add: st en)
  have "?dur \<le> real_of_int ((int i + 1) * ?S) - real_of_int (int i * ?S)"
    by (simp add: st en)
  also have "\<dots> = of_int ?S"
    by (simp add: algebra_simps)
  finally have dle: "?dur \<le> of_int ?S" .
  note props = frame_offsets_props [OF dpos n]
  have frames: "frames_base64 (segs ! i)
                  = map (\<lambda>t. enc (clip_get_frame c (seg_start (segs ! i) + t))) ?offs"
    by (simp only: fr st en)
  have inside: "\<forall>t \<in> set ?offs. 0 \<le> t \<and> t < ?dur \<and> t < of_int ?S"
    using props(3) dle by fastforce
  have first: "1 \<le> ?n \<longrightarrow> ?offs ! 0 = 0"
  proof
    assume "1 \<le> ?n"
    then have "0 < length ?offs"
      using props(1) by linarith
    then show "?offs ! 0 = 0"
      using props(2) by simp
  qed
  have none: "?n = 0 \<longrightarrow> ?offs = []"
    using props(1) by auto
  show ?thesis
    unfolding Let_def using frames props(1) props(2) inside first none by blast
qed

text \<open>The last segment of the 65 second video, with six frames for each segment.\<close>

theorem keyframe_offsets_even_witness:
  "sample_open (Some 65) False ''v.mp4'' = Inr (sample_clip (Some 65) False)
   \<and> (\<exists>segs temp_dir.
          fst (segment (sample_open (Some 65) False) sample_encode (new_VideoSegmenter 30 6)
                 ''v.mp4'' sample_world) = Inr (segs, temp_dir)
        \<and> 2 < length segs
        \<and> (let sg = new_VideoSegmenter 30 6;
                n = frames_per_segment sg;
                dur = seg_end (segs ! 2) - seg_start (segs ! 2);
                offs = frame_offsets sg dur
            in frames_base64 (segs ! 2)
                 = map (\<lambda>t. sample_encode
                          (clip_get_frame (sample_clip (Some 65) False) (seg_start (segs ! 2) + t)))
                     offs
             \<and> int (length offs) = n
             \<and> (\<forall>j < length offs. offs ! j = real j * (max (dur - 1 / 1000) 0 / of_int n))
             \<and> (\<forall>t \<in> set offs. 0 \<le> t \<and> t < dur \<and> t < of_int (segment_duration sg))
             \<and> (1 \<le> n \<longrightarrow> offs ! 0 = 0)
             \<and> (n = 0 \<longrightarrow> offs = [])))"
proof -
  let ?c = "sample_clip (Some 65) False"
  let ?sg = "new_VideoSegmenter 30 6"
  let ?segs = "map (\<lambda>i. fst (make_segment sample_encode ?sg ?c 65 0 i sample_world)) [0..<3]"
  have o: "sample_open (Some 65) False ''v.mp4'' = Inr ?c"
    by (simp add: sample_open_def)
  have run: "fst (segment (sample_open (Some 65) False) sample_encode ?sg ''v.mp4'' sample_world)
               = Inr (?segs, 0)"
    using o
    by (simp add: segment_opened sample_clip_def new_VideoSegmenter_def sample_world_def)
  have i: "2 < length ?segs"
    by simp
  show ?thesis
    using o run i
      keyframe_offsets_even [where opn = "sample_open (Some 65) False"
        and video_path = "''v.mp4''", OF o run i]
    by blast
qed


section \<open>Segment identity\<close>

lemma py_int_of_int: "py_int (of_int k * 1000) = k * 1000"
proof -
  have "real_of_int k * 1000 = of_int (k * 1000)"
    by simp
  then show ?thesis
    unfolding py_int_def by (simp only: floor_of_int ceiling_of_int if_cancel)
qed

lemma py_millis_py_min:
  "py_millis (py_min a D)
     = (if min (of_int a) D = of_int a then py_int (min (of_int a) D * 1000)
        else py_int (double_mul (min (of_int a) D) 1000))"
proof (cases "D < of_int a")
  case True
  then show ?thesis
    by (simp add: py_min_def min_def)
next
  case False
  then have "min (real_of_int a) D = of_int a"
    by (simp add: min_def)
  then show ?thesis
    using False by (simp add: py_min_def py_int_of_int del: of_int_mult)
qed

lemma seg_id_make_segment:
  "seg_id (fst (make_segment enc sg c D td i w))
     = ''seg-'' @ format_04d i @ ''-''
         @ str_int (py_int (seg_start (fst (make_segment enc sg c D td i w)) * 1000))
         @ ''-''
         @ str_int
             (if seg_end (fst (make_segment enc sg c D td i w))
                   = of_int ((int i + 1) * segment_duration sg)
              then py_int (seg_end (fst (make_segment enc sg c D td i w)) * 1000)
              else py_int (double_mul (seg_end (fst (make_segment enc sg c D td i w))) 1000))"
  by (simp add: fst_make_segment segment_id_def py_int_of_int py_millis_py_min
        del: of_int_mult of_int_add)

lemma seg_id_make_segment_indep:
  "seg_id (fst (make_segment enc sg c D td i w))
     = seg_id (fst (make_segment enc' sg c' D td' i w'))"
  by (simp add: fst_make_segment)

text \<open>
  The floats of the example: 65.46 is stored as a float just below it, and its product
  with 1000 is a float just below 65460.
\<close>

lemma sample_duration_value: "sample_duration = 4606337993869885 / 70368744177664"
  by (simp add: sample_duration_def double_round_def ilog2_def pow2_def round_half_even_def
        Let_def bit_length.simps)

lemma sample_duration_millis:
  "double_mul sample_duration 1000 = 8996753894277119 / 137438953472"
  by (simp add: sample_duration_value double_mul_def double_round_def ilog2_def pow2_def
        round_half_even_def Let_def bit_length.simps)

lemma double_mul_2_01: "py_int (double_mul (double_round (201 / 100)) 1000) = 2009"
  by (simp add: py_int_def double_mul_def double_round_def ilog2_def pow2_def
        round_half_even_def Let_def bit_length.simps)

text \<open>
  Claim C9 says that the identity encodes start and end rounded to milliseconds. The
  source multiplies the float by 1000 and truncates: a video of 65.46 seconds cut in
  segments of 30 seconds has a last segment whose identity ends in 65459, where the
  identity with the rounded end has 65460.
\<close>

theorem segment_id_rounded_counterexample:
  "fst (segment (sample_open (Some sample_duration) False) sample_encode
          (new_VideoSegmenter 30 0) ''v.mp4'' sample_world)
     = Inr ([\<lparr>seg_id = ''seg-0000-0-30000'', seg_start = 0, seg_end = 30,
               frames_base64 = [], audio_path = None\<rparr>,
             \<lparr>seg_id = ''seg-0001-30000-60000'', seg_start = 30, seg_end = 60,
               frames_base64 = [], audio_path = None\<rparr>,
             \<lparr>seg_id = ''seg-0002-60000-65459'', seg_start = 60, seg_end = sample_duration,
               frames_base64 = [], audio_path = None\<rparr>], 0)
   \<and> segment_id_rounded 2 60 sample_duration = ''seg-0002-60000-65460''"
proof -
  have o: "sample_open (Some sample_duration) False ''v.mp4''
             = Inr (sample_clip (Some sample_duration) False)"
    by (simp add: sample_open_def)
  have n: "[0..<3] = [0, 1, 2]"
    by (simp add: upt_rec)
  have f0: "format_04d 0 = ''0000''" and f1: "format_04d (Suc 0) = ''0001''"
    and f2: "format_04d 2 = ''0002''"
    by code_simp+
  have s0: "str_nat 0 = ''0''" and s30: "str_nat 30000 = ''30000''"
    and s60: "str_nat 60000 = ''60000''"
    and s59: "str_nat 65459 = ''65459''" and s6460: "str_nat 65460 = ''65460''"
    by (simp_all add: str_nat.simps)
  have total: "nat \<lceil>sample_duration / 30\<rceil> = 3"
    by (simp add: sample_duration_value)
  have m0: "py_min 30 sample_duration = PyInt 30" and m1: "py_min 60 sample_duration = PyInt 60"
    and m2: "py_min 90 sample_duration = PyFloat sample_duration"
    by (simp_all add: py_min_def sample_duration_value)
  have e0: "min 30 sample_duration = 30" and e1: "min 60 sample_duration = 60"
    and e2: "min 90 sample_duration = sample_duration"
    by (simp_all add: sample_duration_value)
  have ms: "py_int (double_mul sample_duration 1000) = 65459"
    by (simp add: sample_duration_millis py_int_def)
  have r: "round (sample_duration * 1000) = 65460"
    by (simp add: sample_duration_value round_def)
  have run: "fst (segment (sample_open (Some sample_duration) False) sample_encode
          (new_VideoSegmenter 30 0) ''v.mp4'' sample_world)
     = Inr ([\<lparr>seg_id = ''seg-0000-0-30000'', seg_start = 0, seg_end = 30,
               frames_base64 = [], audio_path = None\<rparr>,
             \<lparr>seg_id = ''seg-0001-30000-60000'', seg_start = 30, seg_end = 60,
               frames_base64 = [], audio_path = None\<rparr>,
             \<lparr>seg_id = ''seg-0002-60000-65459'', seg_start = 60, seg_end = sample_duration,
               frames_base64 = [], audio_path = None\<rparr>], 0)"
    using o
    by (simp add: segment_opened fst_make_segment sample_clip_def new_VideoSegmenter_def
          sample_world_def total n segment_id_def f0 f1 f2 str_int_def frame_offsets_def
          m0 m1 m2 e0 e1 e2 ms s0 s30 s60 s59)
  have rounded: "segment_id_rounded 2 60 sample_duration = ''seg-0002-60000-65460''"
    using r by (simp add: segment_id_rounded_def f2 str_int_def s60 s6460)
  show ?thesis
    using run rounded by (rule conjI)
qed

text \<open>
  Claim C9 as amended. The identity of a segment is a function of its index and of its
  start and end in whole milliseconds: two segmentation runs with the same segmenter over
  clips of the same duration give the same identities, index by index, whatever the
  frames, the audio, the path and the workspace are. The identity is \<open>seg-\<close>, the index on
  at least four digits, the start in milliseconds and the end in milliseconds. The start
  and an end on a segment boundary are whole seconds and are multiplied by 1000 exactly;
  an end that is the duration of the media is a float, multiplied by 1000 in binary64
  arithmetic and truncated toward zero, not rounded.
\<close>

theorem segment_id_deterministic:
  assumes o1: "opn1 p1 = Inr c1" and o2: "opn2 p2 = Inr c2"
    and dur: "clip_duration c1 = clip_duration c2"
    and r1: "fst (segment opn1 enc1 sg p1 w1) = Inr (segs1, d1)"
    and r2: "fst (segment opn2 enc2 sg p2 w2) = Inr (segs2, d2)"
  shows "map seg_id segs1 = map seg_id segs2
       \<and> (\<forall>i < length segs1.
              seg_id (segs1 ! i)
                = ''seg-'' @ format_04d i @ ''-''
                    @ str_int (py_int (seg_start (segs1 ! i) * 1000)) @ ''-''
                    @ str_int
                        (if seg_end (segs1 ! i) = of_int ((int i + 1) * segment_duration sg)
                         then py_int (seg_end (segs1 ! i) * 1000)
                         else py_int (double_mul (seg_end (segs1 ! i)) 1000)))"
proof -
  let ?D = "case clip_duration c1 of None \<Rightarrow> 0 | Some d \<Rightarrow> d"
  let ?n = "nat \<lceil>?D / of_int (segment_duration sg)\<rceil>"
  have s1: "segs1 = map (\<lambda>i. fst (make_segment enc1 sg c1 ?D (tmp_counter w1) i w1)) [0..<?n]"
    using r1 o1 by (auto simp: segment_opened)
  have s2: "segs2 = map (\<lambda>i. fst (make_segment enc2 sg c2 ?D (tmp_counter w2) i w2)) [0..<?n]"
    using r2 o2 dur by (auto simp: segment_opened)
  have same: "map seg_id segs1 = map seg_id segs2"
    unfolding s1 s2 map_map comp_def
    by (rule map_cong [OF refl]) (rule seg_id_make_segment_indep)
  have fmt: "seg_id (segs1 ! i)
                = ''seg-'' @ format_04d i @ ''-''
                    @ str_int (py_int (seg_start (segs1 ! i) * 1000)) @ ''-''
                    @ str_int
                        (if seg_end (segs1 ! i) = of_int ((int i + 1) * segment_duration sg)
                         then py_int (seg_end (segs1 ! i) * 1000)
                         else py_int (double_mul (seg_end (segs1 ! i)) 1000))"
    if "i < length segs1" for i
  proof -
    have "segs1 ! i = fst (make_segment enc1 sg c1 ?D (tmp_counter w1) i w1)"
      using that by (simp add: s1)
    then show ?thesis
      by (simp only: seg_id_make_segment [symmetric])
  qed
  show ?thesis
    using same fmt by blast
qed

text \<open>
  The video of 65.46 seconds segmented twice, once silent into a fresh workspace, once
  with its audio track into a later workspace.
\<close>

theorem segment_id_deterministic_witness:
  "sample_open (Some sample_duration) False ''v.mp4''
     = Inr (sample_clip (Some sample_duration) False)
   \<and> sample_open (Some sample_duration) True ''copy.mp4''
     = Inr (sample_clip (Some sample_duration) True)
   \<and> clip_duration (sample_clip (Some sample_duration) False)
     = clip_duration (sample_clip (Some sample_duration) True)
   \<and> (\<exists>segs1 d1 segs2 d2.
          fst (segment (sample_open (Some sample_duration) False) sample_encode
                 (new_VideoSegmenter 30 6) ''v.mp4'' sample_world) = Inr (segs1, d1)
        \<and> fst (segment (sample_open (Some sample_duration) True) sample_encode
                 (new_VideoSegmenter 30 6) ''copy.mp4'' (sample_world\<lparr>tmp_counter := 7\<rparr>))
            = Inr (segs2, d2)
        \<and> length segs1 = 3
        \<and> map seg_id segs1 = map seg_id segs2
        \<and> (\<forall>i < length segs1.
               seg_id (segs1 ! i)
                 = ''seg-'' @ format_04d i @ ''-''
                     @ str_int (py_int (seg_start (segs1 ! i) * 1000)) @ ''-''
                     @ str_int
                         (if seg_end (segs1 ! i)
                               = of_int ((int i + 1) * segment_duration (new_VideoSegmenter 30 6))
                          then py_int (seg_end (segs1 ! i) * 1000)
                          else py_int (double_mul (seg_end (segs1 ! i)) 1000))))"
proof -
  let ?D = "sample_duration"
  let ?sg = "new_VideoSegmenter 30 6"
  let ?segs1 = "map (\<lambda>i. fst (make_segment sample_encode ?sg (sample_clip (Some ?D) False)
                               ?D 0 i sample_world)) [0..<3]"
  let ?w2 = "sample_world\<lparr>tmp_counter := 7\<rparr>"
  let ?segs2 = "map (\<lambda>i. fst (make_segment sample_encode ?sg (sample_clip (Some ?D) True)
                               ?D 7 i ?w2)) [0..<3]"
  have total: "nat \<lceil>sample_duration / 30\<rceil> = 3"
    by (simp add: sample_duration_value)
  have o1: "sample_open (Some ?D) False ''v.mp4'' = Inr (sample_clip (Some ?D) False)"
    by (simp add: sample_open_def)
  have o2: "sample_open (Some ?D) True ''copy.mp4'' = Inr (sample_clip (Some ?D) True)"
    by (simp add: sample_open_def)
  have dur: "clip_duration (sample_clip (Some ?D) False)
               = clip_duration (sample_clip (Some ?D) True)"
    by (simp add: sample_clip_def)
  have r1: "fst (segment (sample_open (Some ?D) False) sample_encode ?sg ''v.mp4'' sample_world)
              = Inr (?segs1, 0)"
    using o1
    by (simp add: segment_opened sample_clip_def new_VideoSegmenter_def sample_world_def total)
  have r2: "fst (segment (sample_open (Some ?D) True) sample_encode ?sg ''copy.mp4'' ?w2)
              = Inr (?segs2, 7)"
    using o2
    by (simp add: segment_opened sample_clip_def new_VideoSegmenter_def sample_world_def total)
  have len: "length ?segs1 = 3"
    by simp
  show ?thesis
    using o1 o2 dur r1 r2 len
      segment_id_deterministic [where ?opn1.0 = "sample_open (Some ?D) False"
        and ?p1.0 = "''v.mp4''" and ?opn2.0 = "sample_open (Some ?D) True"
        and ?p2.0 = "''copy.mp4''", OF o1 o2 dur r1 r2]
    by blast
qed


section \<open>Similarity search\<close>

lemma similarity_search_store_match:
  "similarity_search (store_match sim) session_id q k threshold table
     = Inr (map match_row
              (take (nat k)
                 (sort_key (\<lambda>sr. - fst sr)
                    ((case threshold of
                        None \<Rightarrow> (\<lambda>xs. xs)
                      | Some t \<Rightarrow> filter (\<lambda>sr. t \<le> fst sr))
                       (map (\<lambda>r. (sim q (rec_embedding r), r))
                          (filter (\<lambda>r. rec_session_id r = session_id) table))))))"
  by (simp add: similarity_search_def store_match_def Let_def split: option.split)

text \<open>
  Claim C4. For every session, query vector, \<open>k\<close> and optional similarity threshold,
  \<open>similarity_search\<close> over the store's match procedure returns at most \<open>k\<close> items, and when
  a threshold is supplied every returned item has a similarity at least the threshold.
\<close>

theorem similarity_search_bounds:
  assumes k: "0 \<le> k"
  shows "\<exists>items.
           similarity_search (store_match sim) session_id q k threshold table = Inr items
         \<and> int (length items) \<le> k
         \<and> (\<forall>t. threshold = Some t \<longrightarrow>
               (\<forall>m \<in> set items.
                  \<exists>kvs s. m = JObj kvs \<and> map_of kvs ''similarity'' = Some (JNum s) \<and> t \<le> s))"
proof -
  let ?scored = "map (\<lambda>r. (sim q (rec_embedding r), r))
                   (filter (\<lambda>r. rec_session_id r = session_id) table)"
  let ?kept = "(case threshold of
                  None \<Rightarrow> (\<lambda>xs. xs)
                | Some t \<Rightarrow> filter (\<lambda>sr. t \<le> fst sr)) ?scored"
  let ?top = "take (nat k) (sort_key (\<lambda>sr. - fst sr) ?kept)"
  let ?items = "map match_row ?top"
  have run: "similarity_search (store_match sim) session_id q k threshold table = Inr ?items"
    by (rule similarity_search_store_match)
  have "length ?items \<le> nat k"
    by simp
  then have len: "int (length ?items) \<le> k"
    using k by linarith
  have thr: "\<exists>kvs s. m = JObj kvs \<and> map_of kvs ''similarity'' = Some (JNum s) \<and> t \<le> s"
    if t: "threshold = Some t" and m: "m \<in> set ?items" for t m
  proof -
    from m obtain sr where sr: "sr \<in> set ?top" and row: "m = match_row sr"
      by auto
    from sr have "sr \<in> set (sort_key (\<lambda>sr. - fst sr) ?kept)"
      by (rule in_set_takeD)
    then have "sr \<in> set ?kept"
      by simp
    then have "t \<le> fst sr"
      using t by simp
    then show ?thesis
      using row by (simp add: match_row_def)
  qed
  show ?thesis
    using run len thr by blast
qed

text \<open>
  Three records of one session and one of another, a query for one match with threshold
  one half: only the best record of the session comes back.
\<close>

theorem similarity_search_bounds_witness:
  "(0::int) \<le> 1
   \<and> (\<exists>items.
          similarity_search (store_match dot) ''s'' [1, 0] 1 (Some (1 / 2))
            [sample_record ''s'' ''a'' [1 / 4, 0], sample_record ''s'' ''b'' [1, 0],
             sample_record ''other'' ''c'' [1, 0], sample_record ''s'' ''d'' [3 / 4, 0]]
            = Inr items
        \<and> int (length items) \<le> 1
        \<and> (\<forall>t. Some (1 / 2) = Some t \<longrightarrow>
              (\<forall>m \<in> set items.
                 \<exists>kvs s. m = JObj kvs \<and> map_of kvs ''similarity'' = Some (JNum s) \<and> t \<le> s)))"
  using similarity_search_bounds [where k = 1 and sim = dot and session_id = "''s''"
      and q = "[1, 0]" and threshold = "Some (1 / 2)"
      and table = "[sample_record ''s'' ''a'' [1 / 4, 0], sample_record ''s'' ''b'' [1, 0],
             sample_record ''other'' ''c'' [1, 0], sample_record ''s'' ''d'' [3 / 4, 0]]"]
  by simp

lemma similarity_search_sample:
  "similarity_search (store_match dot) ''s'' [1, 0] 1 (Some (1 / 2))
            [sample_record ''s'' ''a'' [1 / 4, 0], sample_record ''s'' ''b'' [1, 0],
             sample_record ''other'' ''c'' [1, 0], sample_record ''s'' ''d'' [3 / 4, 0]]
    = Inr [match_row (1, sample_record ''s'' ''b'' [1, 0])]"
  by (simp add: similarity_search_store_match sample_record_def dot_def)


section \<open>Ingestion: the store and the workspace\<close>

text \<open>Segmentation creates the workspace and writes audio files; it never touches the store.\<close>

lemma store_make_segment: "store (snd (make_segment enc sg c D td i w)) = store w"
  by (simp add: make_segment_def Let_def write_file_def)

lemma store_segment_loop: "store (snd (segment_loop enc sg c D td is w)) = store w"
  by (induction "is" arbitrary: w) (simp_all add: split_beta Let_def store_make_segment)

lemma store_segment: "store (snd (segment opn enc sg p w)) = store w"
  by (simp add: segment_def mkdtemp_def split_beta Let_def store_segment_loop split: sum.split)

lemma dirs_make_segment: "dirs (snd (make_segment enc sg c D td i w)) = dirs w"
  by (simp add: make_segment_def Let_def write_file_def)

lemma dirs_segment_loop: "dirs (snd (segment_loop enc sg c D td is w)) = dirs w"
  by (induction "is" arbitrary: w) (simp_all add: split_beta Let_def dirs_make_segment)

lemma dirs_segment: "dirs (snd (segment opn enc sg p w)) = tmp_counter w # dirs w"
  by (simp add: segment_def mkdtemp_def split_beta Let_def dirs_segment_loop split: sum.split)

lemma segment_temp_dir:
  "fst (segment opn enc sg p w) = Inr (segs, td) \<Longrightarrow> td = tmp_counter w"
  by (auto simp: segment_def mkdtemp_def split_beta Let_def split: sum.splits)

text \<open>The records of a successful loop are those of the segments, in order.\<close>

lemma enrich_segment_ids:
  "enrich_segment sv session_id w seg = Inr r \<Longrightarrow>
     rec_segment_id r = seg_id seg \<and> rec_session_id r = session_id"
  by (auto simp: enrich_segment_def split: sum.splits)

lemma enrich_all_ids:
  "enrich_all sv session_id w segs = Inr recs \<Longrightarrow>
     map rec_segment_id recs = map seg_id segs \<and> (\<forall>r \<in> set recs. rec_session_id r = session_id)"
proof (induction segs arbitrary: recs)
  case Nil
  then show ?case by simp
next
  case (Cons seg segs)
  from Cons.prems obtain r rs where r: "enrich_segment sv session_id w seg = Inr r"
    and rs: "enrich_all sv session_id w segs = Inr rs" and recs: "recs = r # rs"
    by (auto split: sum.splits)
  show ?case
    using enrich_segment_ids [OF r] Cons.IH [OF rs] recs by simp
qed

text \<open>The three ways a run of \<open>ingest_video\<close> goes.\<close>

lemma ingest_video_segment_fails:
  assumes "fst (segment (VideoFileClip sv) (frame_to_base64 sv) sg p w) = Inl e"
  shows "ingest_video sv sg session_id p w
           = (Inl e, snd (segment (VideoFileClip sv) (frame_to_base64 sv) sg p w))"
  using assms by (cases "segment (VideoFileClip sv) (frame_to_base64 sv) sg p w")
    (simp add: ingest_video_def)

lemma ingest_video_enrich_fails:
  assumes "fst (segment (VideoFileClip sv) (frame_to_base64 sv) sg p w) = Inr (segs, td)"
    and "enrich_all sv session_id (snd (segment (VideoFileClip sv) (frame_to_base64 sv) sg p w)) segs
           = Inl e"
  shows "ingest_video sv sg session_id p w
           = (Inl e, rmtree td (snd (segment (VideoFileClip sv) (frame_to_base64 sv) sg p w)))"
  using assms by (cases "segment (VideoFileClip sv) (frame_to_base64 sv) sg p w")
    (simp add: ingest_video_def)

lemma ingest_video_enriched:
  assumes "fst (segment (VideoFileClip sv) (frame_to_base64 sv) sg p w) = Inr (segs, td)"
    and "enrich_all sv session_id (snd (segment (VideoFileClip sv) (frame_to_base64 sv) sg p w)) segs
           = Inr recs"
  shows "ingest_video sv sg session_id p w
           = (fst (upsert_records (upsert_sync sv) recs
                     (snd (segment (VideoFileClip sv) (frame_to_base64 sv) sg p w))),
              rmtree td
                (snd (upsert_records (upsert_sync sv) recs
                        (snd (segment (VideoFileClip sv) (frame_to_base64 sv) sg p w)))))"
  using assms by (cases "segment (VideoFileClip sv) (frame_to_base64 sv) sg p w")
    (simp add: ingest_video_def split_beta)

lemma store_rmtree: "store (rmtree d w) = store w"
  by (simp add: rmtree_def)

lemma dirs_rmtree: "d \<notin> set (dirs (rmtree d w))"
  by (simp add: rmtree_def)

lemma upsert_records_effect:
  "fst (upsert_records u recs w) = (if recs = [] then Inr () else fst (u recs (store w)))"
  "store (snd (upsert_records u recs w)) = (if recs = [] then store w else snd (u recs (store w)))"
  "dirs (snd (upsert_records u recs w)) = dirs w"
  by (simp_all add: upsert_records_def split_beta)

text \<open>
  On every path of \<open>ingest_video\<close> that follows a segmentation that returned, the
  workspace is gone when the call returns or raises.
\<close>

lemma ingest_video_releases_after_segmentation:
  assumes "fst (segment (VideoFileClip sv) (frame_to_base64 sv) sg p w) = Inr (segs, td)"
  shows "td \<notin> set (dirs (snd (ingest_video sv sg session_id p w)))"
proof (cases "enrich_all sv session_id
                (snd (segment (VideoFileClip sv) (frame_to_base64 sv) sg p w)) segs")
  case (Inl e)
  then show ?thesis
    by (simp add: ingest_video_enrich_fails [OF assms] dirs_rmtree)
next
  case (Inr recs)
  then show ?thesis
    by (simp add: ingest_video_enriched [OF assms] dirs_rmtree)
qed

text \<open>The run of the service over the silent video of 60 seconds, step by step.\<close>

lemma sample_segment_run:
  "fst (segment (sample_open (Some 60) False) sample_encode (new_VideoSegmenter 30 0)
          ''v.mp4'' sample_world) = Inr (sample_segments, 0)"
proof -
  have o: "sample_open (Some 60) False ''v.mp4'' = Inr (sample_clip (Some 60) False)"
    by (simp add: sample_open_def)
  have n: "[0..<2] = [0, 1]"
    by (simp add: upt_rec)
  have f0: "format_04d 0 = ''0000''" and f1: "format_04d (Suc 0) = ''0001''"
    by code_simp+
  have s0: "str_nat 0 = ''0''" and s30: "str_nat 30000 = ''30000''"
    and s60: "str_nat 60000 = ''60000''"
    by (simp_all add: str_nat.simps)
  show ?thesis
    using o
    by (simp add: segment_opened fst_make_segment sample_clip_def new_VideoSegmenter_def
          sample_world_def n segment_id_def py_min_def f0 f1 str_int_def frame_offsets_def
          s0 s30 s60 sample_segments_def)
qed

lemma sample_enrich_all:
  "enrich_all (sample_services (Some 60) failing) ''s'' w sample_segments = Inr sample_records"
  by (simp add: sample_segments_def sample_records_def enrich_segment_def transcribe_path_def
        sample_services_def sample_summary_def build_embedding_input_def dict_get_def
        subscript_def)

lemma sample_enrich_all_embed_down:
  "enrich_all sample_services_embed_down ''s'' w sample_segments = Inl (ServiceError ''down'')"
  by (simp add: sample_segments_def enrich_segment_def transcribe_path_def
        sample_services_embed_down_def sample_services_def sample_summary_def
        build_embedding_input_def dict_get_def)

lemma sample_store_upsert_partial:
  "store_upsert [''seg-0001-30000-60000''] sample_records []
     = (Inl (PartialUpsertError [''seg-0001-30000-60000'']), [hd sample_records])"
  by (simp add: store_upsert_def put_record_def sample_records_def)

lemma sample_store_upsert_all:
  "store_upsert [] sample_records [] = (Inr (), sample_records)"
  by (simp add: store_upsert_def put_record_def sample_records_def same_key_def)

text \<open>
  Claim C2 says that a run either upserts the records of all segments, or raises and has
  upserted none of them. The bulk upsert is one call to the store, and nothing is rolled
  back when it fails: with a store that writes the first of two records and fails on the
  second, the run raises and the first record is in the store.
\<close>

theorem ingest_video_partial_upsert_counterexample:
  "fst (ingest_video (sample_services (Some 60) [''seg-0001-30000-60000''])
          (new_VideoSegmenter 30 0) ''s'' ''v.mp4'' sample_world)
     = Inl (PartialUpsertError [''seg-0001-30000-60000''])
   \<and> map rec_segment_id
         (store (snd (ingest_video (sample_services (Some 60) [''seg-0001-30000-60000''])
                        (new_VideoSegmenter 30 0) ''s'' ''v.mp4'' sample_world)))
     = [''seg-0000-0-30000'']
   \<and> store sample_world = []"
proof -
  let ?sv = "sample_services (Some 60) [''seg-0001-30000-60000'']"
  let ?sg = "new_VideoSegmenter 30 0"
  have seg: "fst (segment (VideoFileClip ?sv) (frame_to_base64 ?sv) ?sg ''v.mp4'' sample_world)
               = Inr (sample_segments, 0)"
    using sample_segment_run by (simp add: sample_services_def)
  have en: "enrich_all ?sv ''s''
              (snd (segment (VideoFileClip ?sv) (frame_to_base64 ?sv) ?sg ''v.mp4'' sample_world))
              sample_segments = Inr sample_records"
    by (rule sample_enrich_all)
  have ne: "sample_records \<noteq> []"
    by (simp add: sample_records_def)
  have w: "store sample_world = []"
    by (simp add: sample_world_def)
  have up: "upsert_sync ?sv sample_records []
              = (Inl (PartialUpsertError [''seg-0001-30000-60000'']), [hd sample_records])"
    using sample_store_upsert_partial by (simp add: sample_services_def)
  have "fst (ingest_video ?sv ?sg ''s'' ''v.mp4'' sample_world)
               = Inl (PartialUpsertError [''seg-0001-30000-60000''])
             \<and> store (snd (ingest_video ?sv ?sg ''s'' ''v.mp4'' sample_world))
               = [hd sample_records]"
    by (simp add: ingest_video_enriched [OF seg en] upsert_records_effect store_rmtree
          store_segment ne w up)
  then show ?thesis
    using w by (simp add: sample_records_def)
qed

text \<open>
  Claim C2 as amended. A run of \<open>ingest_video\<close> writes to the store at most once, by one
  bulk upsert of the records of all segments, made after every segment has been
  transcribed, captioned, summarised and embedded. A failure of segmentation, or while
  enriching or embedding any segment, makes the run raise and leaves the store unchanged.
  Otherwise there is one record for each segment, in order, and the outcome of the run and
  the contents of the store are those of the one bulk upsert (nothing is sent for no
  records): all records are upserted, or the run raises the store's error and the store is
  as the failed call left it.
\<close>

theorem ingest_video_store_effect:
  "(\<forall>e. fst (segment (VideoFileClip sv) (frame_to_base64 sv) sg p w) = Inl e \<longrightarrow>
       fst (ingest_video sv sg session_id p w) = Inl e
     \<and> store (snd (ingest_video sv sg session_id p w)) = store w)
   \<and> (\<forall>segs td e.
         fst (segment (VideoFileClip sv) (frame_to_base64 sv) sg p w) = Inr (segs, td)
       \<and> enrich_all sv session_id
            (snd (segment (VideoFileClip sv) (frame_to_base64 sv) sg p w)) segs = Inl e \<longrightarrow>
       fst (ingest_video sv sg session_id p w) = Inl e
     \<and> store (snd (ingest_video sv sg session_id p w)) = store w)
   \<and> (\<forall>segs td recs.
         fst (segment (VideoFileClip sv) (frame_to_base64 sv) sg p w) = Inr (segs, td)
       \<and> enrich_all sv session_id
            (snd (segment (VideoFileClip sv) (frame_to_base64 sv) sg p w)) segs = Inr recs \<longrightarrow>
       map rec_segment_id recs = map seg_id segs
     \<and> (fst (ingest_video sv sg session_id p w), store (snd (ingest_video sv sg session_id p w)))
         = (if recs = [] then (Inr (), store w) else upsert_sync sv recs (store w)))"
proof (intro conjI allI impI)
  fix e
  assume "fst (segment (VideoFileClip sv) (frame_to_base64 sv) sg p w) = Inl e"
  then have run: "ingest_video sv sg session_id p w
                    = (Inl e, snd (segment (VideoFileClip sv) (frame_to_base64 sv) sg p w))"
    by (rule ingest_video_segment_fails)
  show "fst (ingest_video sv sg session_id p w) = Inl e"
    by (simp add: run)
  show "store (snd (ingest_video sv sg session_id p w)) = store w"
    by (simp add: run store_segment)
next
  fix segs td e
  assume a: "fst (segment (VideoFileClip sv) (frame_to_base64 sv) sg p w) = Inr (segs, td)
       \<and> enrich_all sv session_id
            (snd (segment (VideoFileClip sv) (frame_to_base64 sv) sg p w)) segs = Inl e"
  note run = ingest_video_enrich_fails [OF conjunct1 [OF a] conjunct2 [OF a]]
  show "fst (ingest_video sv sg session_id p w) = Inl e"
    by (simp add: run)
  show "store (snd (ingest_video sv sg session_id p w)) = store w"
    by (simp add: run store_rmtree store_segment)
next
  fix segs td recs
  assume a: "fst (segment (VideoFileClip sv) (frame_to_base64 sv) sg p w) = Inr (segs, td)
       \<and> enrich_all sv session_id
            (snd (segment (VideoFileClip sv) (frame_to_base64 sv) sg p w)) segs = Inr recs"
  note run = ingest_video_enriched [OF conjunct1 [OF a] conjunct2 [OF a]]
  show "map rec_segment_id recs = map seg_id segs"
    using enrich_all_ids [OF conjunct2 [OF a]] by simp
  show "(fst (ingest_video sv sg session_id p w), store (snd (ingest_video sv sg session_id p w)))
         = (if recs = [] then (Inr (), store w) else upsert_sync sv recs (store w))"
    by (simp add: run upsert_records_effect store_rmtree store_segment)
qed

text \<open>
  Three runs over an empty store: a source that cannot be opened, an embedding service
  that is down, and a run in which everything succeeds. The first two raise and leave the
  store empty; the third upserts both records.
\<close>

theorem ingest_video_store_effect_witness:
  "fst (segment (VideoFileClip (sample_services (Some 60) []))
          (frame_to_base64 (sample_services (Some 60) [])) (new_VideoSegmenter 30 0)
          ''missing.mp4'' sample_world) = Inl (OSError ''file not found'')
   \<and> fst (ingest_video (sample_services (Some 60) []) (new_VideoSegmenter 30 0)
            ''s'' ''missing.mp4'' sample_world) = Inl (OSError ''file not found'')
   \<and> store (snd (ingest_video (sample_services (Some 60) []) (new_VideoSegmenter 30 0)
                   ''s'' ''missing.mp4'' sample_world)) = store sample_world
   \<and> fst (segment (VideoFileClip sample_services_embed_down)
            (frame_to_base64 sample_services_embed_down) (new_VideoSegmenter 30 0)
            ''v.mp4'' sample_world) = Inr (sample_segments, 0)
   \<and> enrich_all sample_services_embed_down ''s''
         (snd (segment (VideoFileClip sample_services_embed_down)
                 (frame_to_base64 sample_services_embed_down) (new_VideoSegmenter 30 0)
                 ''v.mp4'' sample_world))
         sample_segments = Inl (ServiceError ''down'')
   \<and> fst (ingest_video sample_services_embed_down (new_VideoSegmenter 30 0)
            ''s'' ''v.mp4'' sample_world) = Inl (ServiceError ''down'')
   \<and> store (snd (ingest_video sample_services_embed_down (new_VideoSegmenter 30 0)
                   ''s'' ''v.mp4'' sample_world)) = store sample_world
   \<and> fst (segment (VideoFileClip (sample_services (Some 60) []))
            (frame_to_base64 (sample_services (Some 60) [])) (new_VideoSegmenter 30 0)
            ''v.mp4'' sample_world) = Inr (sample_segments, 0)
   \<and> enrich_all (sample_services (Some 60) []) ''s''
         (snd (segment (VideoFileClip (sample_services (Some 60) []))
                 (frame_to_base64 (sample_services (Some 60) [])) (new_VideoSegmenter 30 0)
                 ''v.mp4'' sample_world))
         sample_segments = Inr sample_records
   \<and> map rec_segment_id sample_records = map seg_id sample_segments
   \<and> fst (ingest_video (sample_services (Some 60) []) (new_VideoSegmenter 30 0)
            ''s'' ''v.mp4'' sample_world) = Inr ()
   \<and> store (snd (ingest_video (sample_services (Some 60) []) (new_VideoSegmenter 30 0)
                   ''s'' ''v.mp4'' sample_world)) = sample_records"
proof -
  let ?sv = "sample_services (Some 60) []"
  let ?dn = "sample_services_embed_down"
  let ?sg = "new_VideoSegmenter 30 0"
  have s1: "fst (segment (VideoFileClip ?sv) (frame_to_base64 ?sv) ?sg ''missing.mp4''
                   sample_world) = Inl (OSError ''file not found'')"
    by (simp add: segment_def mkdtemp_def sample_services_def sample_open_def)
  have s2: "fst (segment (VideoFileClip ?dn) (frame_to_base64 ?dn) ?sg ''v.mp4'' sample_world)
              = Inr (sample_segments, 0)"
    using sample_segment_run by (simp add: sample_services_embed_down_def sample_services_def)
  have e2: "enrich_all ?dn ''s''
              (snd (segment (VideoFileClip ?dn) (frame_to_base64 ?dn) ?sg ''v.mp4'' sample_world))
              sample_segments = Inl (ServiceError ''down'')"
    by (rule sample_enrich_all_embed_down)
  have s3: "fst (segment (VideoFileClip ?sv) (frame_to_base64 ?sv) ?sg ''v.mp4'' sample_world)
              = Inr (sample_segments, 0)"
    using sample_segment_run by (simp add: sample_services_def)
  have e3: "enrich_all ?sv ''s''
              (snd (segment (VideoFileClip ?sv) (frame_to_base64 ?sv) ?sg ''v.mp4'' sample_world))
              sample_segments = Inr sample_records"
    by (rule sample_enrich_all)
  have ne: "sample_records \<noteq> []"
    by (simp add: sample_records_def)
  have up: "upsert_sync ?sv sample_records (store sample_world) = (Inr (), sample_records)"
    using sample_store_upsert_all by (simp add: sample_services_def sample_world_def)
  note t1 = ingest_video_store_effect [where sv = ?sv and sg = ?sg and p = "''missing.mp4''"
      and w = sample_world and session_id = "''s''"]
  note t2 = ingest_video_store_effect [where sv = ?dn and sg = ?sg and p = "''v.mp4''"
      and w = sample_world and session_id = "''s''"]
  note t3 = ingest_video_store_effect [where sv = ?sv and sg = ?sg and p = "''v.mp4''"
      and w = sample_world and session_id = "''s''"]
  have r1: "fst (ingest_video ?sv ?sg ''s'' ''missing.mp4'' sample_world)
              = Inl (OSError ''file not found'')
          \<and> store (snd (ingest_video ?sv ?sg ''s'' ''missing.mp4'' sample_world))
              = store sample_world"
    using t1 s1 by blast
  have r2: "fst (ingest_video ?dn ?sg ''s'' ''v.mp4'' sample_world) = Inl (ServiceError ''down'')
          \<and> store (snd (ingest_video ?dn ?sg ''s'' ''v.mp4'' sample_world)) = store sample_world"
    using t2 s2 e2 by blast
  have "map rec_segment_id sample_records = map seg_id sample_segments
      \<and> (fst (ingest_video ?sv ?sg ''s'' ''v.mp4'' sample_world),
          store (snd (ingest_video ?sv ?sg ''s'' ''v.mp4'' sample_world)))
         = (if sample_records = [] then (Inr (), store sample_world)
            else upsert_sync ?sv sample_records (store sample_world))"
    using t3 s3 e3 by blast
  then have r3: "map rec_segment_id sample_records = map seg_id sample_segments
      \<and> fst (ingest_video ?sv ?sg ''s'' ''v.mp4'' sample_world) = Inr ()
      \<and> store (snd (ingest_video ?sv ?sg ''s'' ''v.mp4'' sample_world)) = sample_records"
    using ne up by simp
  show ?thesis
    using s1 r1 s2 e2 r2 s3 e3 r3 by blast
qed

text \<open>
  Claim C3. The workspace that segmentation creates is to be released on every exit path
  of every run. Segmentation creates the directory before it opens the source, and
  \<open>ingest_video\<close> calls segmentation before its \<open>try\<close>: when the source cannot be opened,
  the run raises and the directory it created is still there.
\<close>

theorem ingest_video_leaks_workspace:
  "dirs sample_world = []
   \<and> fst (ingest_video (sample_services (Some 60) []) (new_VideoSegmenter 30 0)
            ''s'' ''missing.mp4'' sample_world) = Inl (OSError ''file not found'')
   \<and> dirs (snd (ingest_video (sample_services (Some 60) []) (new_VideoSegmenter 30 0)
                  ''s'' ''missing.mp4'' sample_world)) = [0]"
proof -
  let ?sv = "sample_services (Some 60) []"
  let ?sg = "new_VideoSegmenter 30 0"
  have s: "fst (segment (VideoFileClip ?sv) (frame_to_base64 ?sv) ?sg ''missing.mp4''
                  sample_world) = Inl (OSError ''file not found'')"
    by (simp add: segment_def mkdtemp_def sample_services_def sample_open_def)
  have run: "fst (ingest_video ?sv ?sg ''s'' ''missing.mp4'' sample_world)
               = Inl (OSError ''file not found'')"
    by (simp add: ingest_video_segment_fails [OF s])
  have "dirs (snd (ingest_video ?sv ?sg ''s'' ''missing.mp4'' sample_world))
          = tmp_counter sample_world # dirs sample_world"
    by (simp add: ingest_video_segment_fails [OF s] dirs_segment)
  moreover have "tmp_counter sample_world = 0" and empty: "dirs sample_world = []"
    by (simp_all add: sample_world_def)
  ultimately have "dirs (snd (ingest_video ?sv ?sg ''s'' ''missing.mp4'' sample_world)) = [0]"
    by simp
  with run empty show ?thesis
    by blast
qed

end
